theory Spec2Isabelle
  imports Complex_Main "HOL-Library.Log_Nat"
begin

section \<open>JavaScript values used by LogSheets.js\<close>

subsection \<open>Rounding to binary64\<close>

text \<open>
  Every arithmetic operation of JavaScript returns the binary64 number nearest to the exact
  result, ties going to the even significand. \<open>rne\<close> is that rounding to an integer. A
  binary64 number is an integer multiple of \<open>2 ^ -1074\<close> with at most 53 significant bits, so
  the magnitude is first scaled by \<open>2 ^ 1074\<close>; its integer part then has \<open>bitlen\<close> bits, of
  which all but the leading 53 are rounded away (\<open>ulpExp\<close> is their number, 0 for the
  subnormal numbers). Results beyond the binary64 range, which JavaScript turns into an
  infinity, are not cut off: the rounding keeps 53 significant bits at any magnitude. The
  two zeros of binary64 are one.
\<close>

definition rne :: "real \<Rightarrow> int" where
  "rne x =
     (let f = \<lfloor>x\<rfloor>; d = x - of_int f
      in if d < 1 / 2 then f
         else if 1 / 2 < d then f + 1
         else if even f then f else f + 1)"

definition ulpExp :: "real \<Rightarrow> nat" where
  "ulpExp a = nat (bitlen \<lfloor>a\<rfloor> - 53)"

definition roundScaled :: "real \<Rightarrow> real" where
  "roundScaled a = of_int (rne (a / 2 ^ ulpExp a)) * 2 ^ ulpExp a"

definition minExp :: nat where
  "minExp = 1074"

definition binary64 :: "real \<Rightarrow> real" where
  "binary64 x =
     (if x < 0 then - (roundScaled (- x * 2 ^ minExp) / 2 ^ minExp)
      else roundScaled (x * 2 ^ minExp) / 2 ^ minExp)"

subsection \<open>Numbers\<close>

text \<open>
  A JavaScript number is either \<open>NaN\<close> or a numeric value, a real; the two infinities are
  left out. The arithmetic operators round their result to binary64. \<open>NaN\<close> is kept,
  because \<open>parseTime\<close> produces it for a string that is not a time, and every arithmetic
  operator hands it on. The only divisors in the source are the literals 24 and 60.
\<close>

datatype jsnum = NaN | Num real

fun jsAdd :: "jsnum \<Rightarrow> jsnum \<Rightarrow> jsnum" where
  "jsAdd (Num a) (Num b) = Num (binary64 (a + b))"
| "jsAdd _ _ = NaN"

fun jsSub :: "jsnum \<Rightarrow> jsnum \<Rightarrow> jsnum" where
  "jsSub (Num a) (Num b) = Num (binary64 (a - b))"
| "jsSub _ _ = NaN"

fun jsMul :: "jsnum \<Rightarrow> jsnum \<Rightarrow> jsnum" where
  "jsMul (Num a) (Num b) = Num (binary64 (a * b))"
| "jsMul _ _ = NaN"

fun jsDiv :: "jsnum \<Rightarrow> jsnum \<Rightarrow> jsnum" where
  "jsDiv (Num a) (Num b) = Num (binary64 (a / b))"
| "jsDiv _ _ = NaN"

text \<open>The comparison \<open>a <= b\<close>: false as soon as one side is \<open>NaN\<close>.\<close>

fun jsLe :: "jsnum \<Rightarrow> jsnum \<Rightarrow> bool" where
  "jsLe (Num a) (Num b) = (a \<le> b)"
| "jsLe _ _ = False"

text \<open>\<open>ToNumber\<close> of a destructured array slot: a missing slot is \<open>undefined\<close>, which is \<open>NaN\<close>.\<close>

fun toNumber :: "jsnum option \<Rightarrow> jsnum" where
  "toNumber None = NaN"
| "toNumber (Some n) = n"

text \<open>Array destructuring \<open>[hours, minutes] = arr\<close> reads slots 0 and 1; a slot past the end
  is \<open>undefined\<close>.\<close>

fun slot :: "'a list \<Rightarrow> nat \<Rightarrow> 'a option" where
  "slot [] _ = None"
| "slot (x # xs) 0 = Some x"
| "slot (x # xs) (Suc n) = slot xs n"

text \<open>\<open>String.prototype.split\<close> with a one-character separator: always at least one piece.\<close>

fun splitOn :: "char \<Rightarrow> string \<Rightarrow> string list" where
  "splitOn c [] = [[]]"
| "splitOn c (x # xs) =
     (if x = c then [] # splitOn c xs
      else (case splitOn c xs of [] \<Rightarrow> [[x]] | w # ws \<Rightarrow> (x # w) # ws))"

text \<open>
  The built-ins of the JavaScript host that the component calls and does not define:
  \<open>Number(s)\<close> on a string, \<open>x.toFixed(d)\<close> on a number, and
  \<open>new Date(s).toLocaleDateString()\<close>. They are parameters of the model; none of them raises
  on an argument of its type.
\<close>

record host =
  Number :: "string \<Rightarrow> jsnum"
  toFixed :: "real \<Rightarrow> nat \<Rightarrow> string"
  toLocaleDateString :: "string \<Rightarrow> string"

text \<open>Decimal rendering of a non-negative integer inside a template literal or JSX text.\<close>

fun showNat :: "nat \<Rightarrow> string" where
  "showNat n = (if n < 10 then [''0123456789'' ! n]
                else showNat (n div 10) @ [''0123456789'' ! (n mod 10)])"

declare showNat.simps [simp del]

section \<open>The data handed to the component\<close>

record activity =
  act_type :: string
  act_start :: string
  act_end :: string

record recap =
  driving_hours :: real
  on_duty_hours :: real
  off_duty_hours :: real
  total_70hr_8day :: real
  available_tomorrow :: real

text \<open>\<open>activities\<close> may be absent (\<open>null\<close> or \<open>undefined\<close>): the source guards it with
  \<open>log.activities || []\<close>. In a \<open>dailyLog\<close> every other field is present, with
  the type the component reads it at (a string for a time, a number for a recap value): on
  such a log no call of the component raises. The records that lack a field, on which
  \<open>split\<close> or \<open>toFixed\<close> raises, are the raw records further down.\<close>

record dailyLog =
  date :: string
  origin :: string
  destination :: string
  total_miles_driving :: real
  activities :: "activity list option"
  log_recap :: recap

section \<open>The 2D drawing context\<close>

text \<open>
  The canvas context is modelled by the sequence of property assignments and method calls
  made on it, oldest first. A style assignment stays in force until the next assignment of
  the same property.
\<close>

datatype call =
    ClearRect real real real real
  | SetFillStyle string
  | SetStrokeStyle string
  | SetLineWidth real
  | SetFont string
  | FillText string real real
  | BeginPath
  | MoveTo real real
  | LineTo real real
  | Stroke
  | FillRect jsnum real jsnum real
  | StrokeRect jsnum real jsnum real

type_synonym ctx = "call list"

section \<open>parseTime\<close>

definition parseTime :: "host \<Rightarrow> string \<Rightarrow> jsnum" where
  "parseTime h timeStr =
     (let parts = map (Number h) (splitOn CHR '':'' timeStr);
          hours = slot parts 0;
          minutes = slot parts 1
      in jsAdd (toNumber hours) (jsDiv (toNumber minutes) (Num 60)))"

section \<open>drawDutyStatusTimeline\<close>

text \<open>The expression \<open>x + (t / 24) * width\<close> that gives \<open>startX\<close> and \<open>endX\<close>.\<close>

definition timeX :: "real \<Rightarrow> real \<Rightarrow> jsnum \<Rightarrow> jsnum" where
  "timeX x width t = jsAdd (Num x) (jsMul (jsDiv t (Num 24)) (Num width))"

text \<open>The same expression in the hour loop of the grid, where the hour is a loop counter.
  The other coordinates of the sheet (margins, row offsets) are sums and products of its
  small integer constants, where binary64 arithmetic is exact; they are written with the
  exact operations.\<close>

definition hourX :: "real \<Rightarrow> real \<Rightarrow> nat \<Rightarrow> real" where
  "hourX timelineX timelineWidth hour =
     binary64 (timelineX + binary64 (binary64 (real hour / 24) * timelineWidth))"

definition rowIndex :: "string \<Rightarrow> nat" where
  "rowIndex t = (if t = ''driving'' then 2 else if t = ''on_duty'' then 3 else 0)"

definition barFillStyle :: "string \<Rightarrow> string" where
  "barFillStyle t =
     (if t = ''driving'' then ''#e74c3c''
      else if t = ''on_duty'' then ''#f39c12'' else ''#3498db'')"

text \<open>The body of \<open>activities.forEach\<close>.\<close>

definition drawActivity ::
  "host \<Rightarrow> real \<Rightarrow> real \<Rightarrow> real \<Rightarrow> real \<Rightarrow> activity \<Rightarrow> ctx \<Rightarrow> ctx" where
  "drawActivity h x yStart width rowHeight a ctx =
     (let startTime = parseTime h (act_start a);
          endTime = parseTime h (act_end a);
          startX = timeX x width startTime;
          endX = timeX x width endTime;
          y = yStart + real (rowIndex (act_type a)) * rowHeight - 10;
          barHeight = rowHeight - 2
      in ctx @ [SetFillStyle (barFillStyle (act_type a)),
                FillRect startX y (jsSub endX startX) barHeight,
                SetStrokeStyle ''#000'',
                SetLineWidth 1,
                StrokeRect startX y (jsSub endX startX) barHeight])"

definition drawDutyStatusTimeline ::
  "host \<Rightarrow> ctx \<Rightarrow> dailyLog \<Rightarrow> real \<Rightarrow> real \<Rightarrow> real \<Rightarrow> real \<Rightarrow> ctx" where
  "drawDutyStatusTimeline h ctx dlog x yStart width rowHeight =
     fold (drawActivity h x yStart width rowHeight)
          (case activities dlog of None \<Rightarrow> [] | Some as \<Rightarrow> as) ctx"

section \<open>drawLogSheet\<close>

text \<open>The header block: title, date, origin, destination and total miles.\<close>

definition drawHeader :: "host \<Rightarrow> ctx \<Rightarrow> real \<Rightarrow> real \<Rightarrow> dailyLog \<Rightarrow> ctx" where
  "drawHeader h ctx margin width dlog =
     ctx @ [SetFillStyle ''#000'',
            SetFont ''bold 16px Arial'',
            FillText ''Drivers Daily Log (24 hours)'' margin 30,
            SetFont ''12px Arial'',
            FillText (''Date: '' @ toLocaleDateString h (date dlog)) (width - 200) 30,
            FillText (''From: '' @ origin dlog) margin 60,
            FillText (''To: '' @ destination dlog) margin 80,
            FillText (''Total Miles: '' @ toFixed h (total_miles_driving dlog) 2) margin 100]"

definition statusLabels :: "string list" where
  "statusLabels =
     [''1. Off Duty'', ''2. Sleeper Berth'', ''3. Driving'', ''4. On Duty (not driving)'']"

text \<open>\<open>statusLabels.forEach((label, index) => ...)\<close>.\<close>

definition drawStatusLabels :: "ctx \<Rightarrow> real \<Rightarrow> real \<Rightarrow> real \<Rightarrow> ctx" where
  "drawStatusLabels ctx margin statusYStart statusRowHeight =
     fold (\<lambda>(index, label) c.
             (let y = statusYStart + real index * statusRowHeight
              in c @ [FillText label (margin + 20) (y + 15)]))
          (enumerate 0 statusLabels) ctx"

text \<open>\<open>for (let i = 0; i <= 4; i++)\<close>: one horizontal line per pass.\<close>

function horizontalLines :: "nat \<Rightarrow> ctx \<Rightarrow> real \<Rightarrow> real \<Rightarrow> real \<Rightarrow> real \<Rightarrow> ctx" where
  "horizontalLines i ctx timelineX timelineWidth statusYStart statusRowHeight =
     (if i \<le> 4 then
        (let y = statusYStart + real i * statusRowHeight - 10
         in horizontalLines (i + 1)
              (ctx @ [BeginPath, MoveTo timelineX y, LineTo (timelineX + timelineWidth) y, Stroke])
              timelineX timelineWidth statusYStart statusRowHeight)
      else ctx)"
  by pat_completeness auto
termination
  by (relation "measure (\<lambda>(i, ctx, tx, tw, ys, rh). 5 - i)") auto

definition hourLabel :: "nat \<Rightarrow> string" where
  "hourLabel hour =
     (if hour = 0 then ''Mid''
      else if hour = 12 then ''Noon''
      else if hour > 12 then showNat (hour - 12) else showNat hour)"

text \<open>The calls of one pass of the hour loop: a vertical tick, and a label on even hours.\<close>

definition timeMarker :: "real \<Rightarrow> real \<Rightarrow> real \<Rightarrow> real \<Rightarrow> nat \<Rightarrow> call list" where
  "timeMarker timelineX timelineWidth statusYStart statusRowHeight hour =
     (let x = hourX timelineX timelineWidth hour
      in [BeginPath,
          MoveTo x (statusYStart - 10),
          LineTo x (statusYStart + 4 * statusRowHeight - 10),
          Stroke]
         @ (if hour mod 2 = 0
            then [FillText (hourLabel hour) (binary64 (x - 10)) (statusYStart - 15)]
            else []))"

text \<open>\<open>for (let hour = 0; hour <= 24; hour++)\<close>.\<close>

function timeMarkers :: "nat \<Rightarrow> ctx \<Rightarrow> real \<Rightarrow> real \<Rightarrow> real \<Rightarrow> real \<Rightarrow> ctx" where
  "timeMarkers hour ctx timelineX timelineWidth statusYStart statusRowHeight =
     (if hour \<le> 24 then
        timeMarkers (hour + 1)
          (ctx @ timeMarker timelineX timelineWidth statusYStart statusRowHeight hour)
          timelineX timelineWidth statusYStart statusRowHeight
      else ctx)"
  by pat_completeness auto
termination
  by (relation "measure (\<lambda>(hour, ctx, tx, tw, ys, rh). 25 - hour)") auto

text \<open>The timeline grid: the stroke style, the horizontal lines, the label style, the hour
  marks. Nothing in it reads the log.\<close>

definition drawTimelineGrid :: "ctx \<Rightarrow> real \<Rightarrow> real \<Rightarrow> real \<Rightarrow> real \<Rightarrow> ctx" where
  "drawTimelineGrid ctx timelineX timelineWidth statusYStart statusRowHeight =
     (let c1 = ctx @ [SetStrokeStyle ''#333'', SetLineWidth 1];
          c2 = horizontalLines 0 c1 timelineX timelineWidth statusYStart statusRowHeight;
          c3 = c2 @ [SetFont ''10px Arial'', SetFillStyle ''#333'']
      in timeMarkers 0 c3 timelineX timelineWidth statusYStart statusRowHeight)"

definition drawRecap :: "host \<Rightarrow> ctx \<Rightarrow> real \<Rightarrow> real \<Rightarrow> dailyLog \<Rightarrow> ctx" where
  "drawRecap h ctx margin recapY dlog =
     (let r = log_recap dlog
      in ctx @ [SetFont ''bold 14px Arial'',
                FillText ''Recap: Complete at end of day'' margin recapY,
                SetFont ''12px Arial'',
                FillText (''On duty hours today: '' @ toFixed h (on_duty_hours r) 2)
                         margin (recapY + 30),
                FillText (''Driving hours: '' @ toFixed h (driving_hours r) 2)
                         margin (recapY + 50),
                FillText (''Off duty hours: '' @ toFixed h (off_duty_hours r) 2)
                         margin (recapY + 70),
                FillText (''Total 70hr/8day: '' @ toFixed h (total_70hr_8day r) 2)
                         margin (recapY + 90),
                FillText (''Available tomorrow: '' @ toFixed h (available_tomorrow r) 2 @ '' hrs'')
                         margin (recapY + 110)])"

definition drawLogSheet :: "host \<Rightarrow> ctx \<Rightarrow> real \<Rightarrow> real \<Rightarrow> dailyLog \<Rightarrow> ctx" where
  "drawLogSheet h ctx width height dlog =
     (let margin = 40;
          timelineHeight = 300;
          timelineY = 250;
          timelineWidth = width - 2 * margin - 200;
          timelineX = margin + 200;
          c1 = drawHeader h ctx margin width dlog;
          statusYStart = timelineY + 20;
          statusRowHeight = 50;
          c2 = drawStatusLabels c1 margin statusYStart statusRowHeight;
          c3 = drawTimelineGrid c2 timelineX timelineWidth statusYStart statusRowHeight;
          c4 = drawDutyStatusTimeline h c3 dlog timelineX statusYStart timelineWidth
                 statusRowHeight;
          recapY = timelineY + timelineHeight + 50
      in drawRecap h c4 margin recapY dlog)"

section \<open>LogSheet and LogSheets\<close>

text \<open>What one \<open>LogSheet\<close> element shows: the heading above the canvas, what the effect
  drew on the canvas, and the four summary items below it.\<close>

record sheet =
  sheet_header :: string
  canvas :: ctx
  summary :: "(string \<times> string) list"

text \<open>The effect of \<open>LogSheet\<close>, run on the 1000 by 1400 canvas of the element once it is
  mounted (so the guard \<open>if (!canvas) return\<close> does not fire); \<open>ctx0\<close> is what the canvas
  received before.\<close>

definition useEffectDraw :: "host \<Rightarrow> ctx \<Rightarrow> dailyLog \<Rightarrow> ctx" where
  "useEffectDraw h ctx0 dlog =
     (let width = 1000;
          height = 1400;
          ctx = ctx0 @ [ClearRect 0 0 width height,
                          SetFillStyle ''#000'',
                          SetStrokeStyle ''#000'',
                          SetLineWidth 1,
                          SetFont ''12px Arial'']
      in drawLogSheet h ctx width height dlog)"

definition LogSheet :: "host \<Rightarrow> dailyLog \<Rightarrow> nat \<Rightarrow> sheet" where
  "LogSheet h dlog dayNumber =
     \<lparr> sheet_header = ''Day '' @ showNat dayNumber @ '' - '' @ toLocaleDateString h (date dlog),
       canvas = useEffectDraw h [] dlog,
       summary =
         [(''Driving Hours:'', toFixed h (driving_hours (log_recap dlog)) 2 @ '' hrs''),
          (''On Duty Hours:'', toFixed h (on_duty_hours (log_recap dlog)) 2 @ '' hrs''),
          (''Off Duty Hours:'', toFixed h (off_duty_hours (log_recap dlog)) 2 @ '' hrs''),
          (''Total Miles:'', toFixed h (total_miles_driving dlog) 2 @ '' miles'')] \<rparr>"

text \<open>What \<open>LogSheets\<close> returns: \<open>null\<close> (\<open>None\<close>) or the container with its heading and
  one \<open>LogSheet\<close> per entry of \<open>logs\<close>.\<close>

record container =
  heading :: string
  logs_grid :: "sheet list"

definition LogSheets :: "host \<Rightarrow> dailyLog list option \<Rightarrow> container option" where
  "LogSheets h logs =
     (case logs of
        None \<Rightarrow> None
      | Some ls \<Rightarrow>
          if length ls = 0 then None
          else Some \<lparr> heading = ''ELD Daily Log Sheets'',
                      logs_grid = map (\<lambda>(index, dlog). LogSheet h dlog (index + 1))
                                      (enumerate 0 ls) \<rparr>)"

section \<open>Records that lack a field\<close>

text \<open>
  The records above have every field. What reaches the component is parsed JSON, in which
  a field may be missing, and the component reads four kinds of field through a method
  call, which raises a \<open>TypeError\<close> on \<open>undefined\<close>: \<open>log.recap.driving_hours\<close> and its
  siblings (a missing \<open>recap\<close>), \<open>log.total_miles_driving.toFixed\<close>, and
  \<open>activity.start.split\<close> and \<open>activity.end.split\<close> inside \<open>parseTime\<close>. In a raw record
  these fields are optional. The date, the places and the type of an activity are only
  interpolated or compared, which does not raise; they stay mandatory, and a recap that is
  present has its five numbers.
\<close>

datatype error = TypeError

record rawActivity =
  raw_type :: string
  raw_start :: "string option"
  raw_end :: "string option"

record rawLog =
  raw_date :: string
  raw_origin :: string
  raw_destination :: string
  raw_total_miles_driving :: "real option"
  raw_activities :: "rawActivity list option"
  raw_recap :: "recap option"

text \<open>The two calls \<open>parseTime(activity.start)\<close> and \<open>parseTime(activity.end)\<close> on a raw
  activity: the first missing string raises, otherwise the activity is as above.\<close>

definition readActivity :: "rawActivity \<Rightarrow> error + activity" where
  "readActivity ra =
     (case raw_start ra of
        None \<Rightarrow> Inl TypeError
      | Some s \<Rightarrow>
          (case raw_end ra of
             None \<Rightarrow> Inl TypeError
           | Some e \<Rightarrow> Inr \<lparr> act_type = raw_type ra, act_start = s, act_end = e \<rparr>))"

text \<open>Running a list of steps in order: the first exception ends the run.\<close>

fun collect :: "(error + 'a) list \<Rightarrow> error + 'a list" where
  "collect [] = Inr []"
| "collect (Inl e # rs) = Inl e"
| "collect (Inr x # rs) = (case collect rs of Inl e \<Rightarrow> Inl e | Inr xs \<Rightarrow> Inr (x # xs))"

text \<open>
  One \<open>LogSheet\<close> on a raw record. Its JSX reads the recap and the total miles, and its
  effect reads the times of the activities; an exception from either leaves the component.
  When nothing raises, the sheet is the \<open>LogSheet\<close> of the record with its fields filled in.
\<close>

definition renderLogSheet :: "host \<Rightarrow> rawLog \<Rightarrow> nat \<Rightarrow> error + sheet" where
  "renderLogSheet h raw dayNumber =
     (case raw_recap raw of
        None \<Rightarrow> Inl TypeError
      | Some r \<Rightarrow>
          (case raw_total_miles_driving raw of
             None \<Rightarrow> Inl TypeError
           | Some miles \<Rightarrow>
               (case (case raw_activities raw of
                        None \<Rightarrow> Inr None
                      | Some ras \<Rightarrow>
                          (case collect (map readActivity ras) of
                             Inl e \<Rightarrow> Inl e
                           | Inr as \<Rightarrow> Inr (Some as))) of
                  Inl e \<Rightarrow> Inl e
                | Inr acts \<Rightarrow>
                    Inr (LogSheet h
                           \<lparr> date = raw_date raw, origin = raw_origin raw,
                             destination = raw_destination raw,
                             total_miles_driving = miles,
                             activities = acts,
                             log_recap = r \<rparr>
                           dayNumber))))"

text \<open>
  \<open>LogSheets\<close> on raw records, as React renders it. Neither \<open>LogSheets.js\<close> nor \<open>App.js\<close>
  has a \<open>try\<close> or an error boundary around the sheets, so an exception that leaves one
  \<open>LogSheet\<close> leaves the whole tree, and React then shows none of it: the result is the
  exception, not a container.
\<close>

definition renderLogSheets :: "host \<Rightarrow> rawLog list option \<Rightarrow> error + container option" where
  "renderLogSheets h logs =
     (case logs of
        None \<Rightarrow> Inr None
      | Some ls \<Rightarrow>
          if length ls = 0 then Inr None
          else (case collect (map (\<lambda>(index, raw). renderLogSheet h raw (index + 1))
                                  (enumerate 0 ls)) of
                  Inl e \<Rightarrow> Inl e
                | Inr sheets \<Rightarrow>
                    Inr (Some \<lparr> heading = ''ELD Daily Log Sheets'', logs_grid = sheets \<rparr>)))"

text \<open>A record with every field, as a raw record.\<close>

definition rawActivityOf :: "activity \<Rightarrow> rawActivity" where
  "rawActivityOf a =
     \<lparr> raw_type = act_type a, raw_start = Some (act_start a), raw_end = Some (act_end a) \<rparr>"

definition rawOf :: "dailyLog \<Rightarrow> rawLog" where
  "rawOf dlog =
     \<lparr> raw_date = date dlog, raw_origin = origin dlog, raw_destination = destination dlog,
       raw_total_miles_driving = Some (total_miles_driving dlog),
       raw_activities = map_option (map rawActivityOf) (activities dlog),
       raw_recap = Some (log_recap dlog) \<rparr>"

section \<open>A concrete host for evaluation\<close>

text \<open>
  \<open>decimalNumber\<close> reads a non-empty string of ASCII digits, as \<open>Number\<close> does, and gives
  \<open>NaN\<close> for every other string (\<open>Number\<close> also reads signs, fractions, exponents and
  surrounding blanks, which no input below uses). \<open>fixedDecimal\<close> is \<open>toFixed\<close> on exact
  decimal values: round half away from zero to \<open>d\<close> places. The date is shown as it was
  received.
\<close>

definition decimalNumber :: "string \<Rightarrow> jsnum" where
  "decimalNumber s =
     (if s \<noteq> [] \<and> list_all (\<lambda>c. c \<in> set ''0123456789'') s
      then Num (real (foldl (\<lambda>n c. 10 * n + (of_char c - 48)) 0 s))
      else NaN)"

definition padZeros :: "nat \<Rightarrow> string \<Rightarrow> string" where
  "padZeros d s = replicate (d - length s) CHR ''0'' @ s"

definition fixedDecimal :: "real \<Rightarrow> nat \<Rightarrow> string" where
  "fixedDecimal x d =
     (let n = nat \<lfloor>\<bar>x\<bar> * 10 ^ d + 1 / 2\<rfloor>
      in (if x < 0 then ''-'' else [])
         @ showNat (n div 10 ^ d)
         @ (if d = 0 then [] else ''.'' @ padZeros d (showNat (n mod 10 ^ d))))"

definition sampleHost :: host where
  "sampleHost = \<lparr> Number = decimalNumber, toFixed = fixedDecimal,
                   toLocaleDateString = (\<lambda>s. s) \<rparr>"

section \<open>Reading a call sequence\<close>

text \<open>The texts of the \<open>fillText\<close> calls of a sequence, in order.\<close>

fun textOf :: "call \<Rightarrow> string list" where
  "textOf (FillText t x y) = [t]"
| "textOf _ = []"

definition textsOf :: "call list \<Rightarrow> string list" where
  "textsOf cs = concat (map textOf cs)"

text \<open>The rectangle calls of a sequence, in order: the bars and their borders.\<close>

fun isRect :: "call \<Rightarrow> bool" where
  "isRect (FillRect x y w ht) = True"
| "isRect (StrokeRect x y w ht) = True"
| "isRect _ = False"

definition rectsOf :: "call list \<Rightarrow> call list" where
  "rectsOf cs = filter isRect cs"

section \<open>Sample logs\<close>

definition sampleRecap :: recap where
  "sampleRecap = \<lparr> driving_hours = 13, on_duty_hours = 1, off_duty_hours = 10,
                    total_70hr_8day = 35, available_tomorrow = 11 \<rparr>"

definition sampleLog :: dailyLog where
  "sampleLog =
     \<lparr> date = ''2024-03-01'', origin = ''New York, NY'', destination = ''Chicago, IL'',
       total_miles_driving = 1350,
       activities = Some
         [\<lparr> act_type = ''off_duty'', act_start = ''00:00'', act_end = ''06:00'' \<rparr>,
          \<lparr> act_type = ''driving'', act_start = ''06:00'', act_end = ''12:00'' \<rparr>,
          \<lparr> act_type = ''on_duty'', act_start = ''12:00'', act_end = ''13:00'' \<rparr>,
          \<lparr> act_type = ''driving'', act_start = ''13:00'', act_end = ''20:00'' \<rparr>,
          \<lparr> act_type = ''off_duty'', act_start = ''20:00'', act_end = ''24:00'' \<rparr>],
       log_recap = sampleRecap \<rparr>"

text \<open>A day whose only activity starts at a string that is not a time.\<close>

definition malformedLog :: dailyLog where
  "malformedLog =
     \<lparr> date = ''2024-03-02'', origin = ''Chicago, IL'', destination = ''Denver, CO'',
       total_miles_driving = 0,
       activities = Some
         [\<lparr> act_type = ''driving'', act_start = ''noon'', act_end = ''13:00'' \<rparr>],
       log_recap = sampleRecap \<rparr>"

text \<open>The sample day without its recap.\<close>

definition noRecapLog :: rawLog where
  "noRecapLog = (rawOf sampleLog)\<lparr> raw_recap := None \<rparr>"

text \<open>Three days handed over with their dates out of order.\<close>

definition threeLogs :: "dailyLog list" where
  "threeLogs = [sampleLog\<lparr> date := ''2024-03-05'' \<rparr>,
                sampleLog\<lparr> date := ''2024-03-01'' \<rparr>,
                sampleLog\<lparr> date := ''2024-03-03'' \<rparr>]"

section \<open>Rounding to binary64: monotone, and exact on binary64 numbers\<close>

lemma rne_cases: "rne x = \<lfloor>x\<rfloor> \<or> rne x = \<lfloor>x\<rfloor> + 1"
  by (simp add: rne_def Let_def)

lemma rne_of_int: "rne (of_int n) = n"
  by (simp add: rne_def)

lemma rne_ge_floor: "\<lfloor>x\<rfloor> \<le> rne x"
  using rne_cases [of x] by auto

lemma rne_le_int: "x \<le> of_int n \<Longrightarrow> rne x \<le> n"
proof -
  assume a: "x \<le> of_int n"
  show ?thesis
  proof (cases "x = of_int n")
    case True
    then show ?thesis by (simp add: rne_of_int)
  next
    case False
    with a have "x < of_int n" by simp
    then have "\<lfloor>x\<rfloor> < n" by (simp add: floor_less_iff)
    with rne_cases [of x] show ?thesis by auto
  qed
qed

lemma rne_ge_int: "of_int n \<le> x \<Longrightarrow> n \<le> rne x"
proof -
  assume "of_int n \<le> x"
  then have "n \<le> \<lfloor>x\<rfloor>" by (simp add: le_floor_iff)
  with rne_ge_floor [of x] show ?thesis by simp
qed

lemma rne_mono: "x \<le> y \<Longrightarrow> rne x \<le> rne y"
proof -
  assume xy: "x \<le> y"
  then have f: "\<lfloor>x\<rfloor> \<le> \<lfloor>y\<rfloor>" by (rule floor_mono)
  show ?thesis
  proof (cases "\<lfloor>x\<rfloor> = \<lfloor>y\<rfloor>")
    case True
    with xy have "x - of_int \<lfloor>x\<rfloor> \<le> y - of_int \<lfloor>y\<rfloor>" by simp
    with True show ?thesis by (auto simp: rne_def Let_def)
  next
    case False
    with f have "\<lfloor>x\<rfloor> + 1 \<le> \<lfloor>y\<rfloor>" by simp
    with rne_cases [of x] rne_ge_floor [of y] show ?thesis by auto
  qed
qed

lemma ulpExp_mono: "a \<le> b \<Longrightarrow> ulpExp a \<le> ulpExp b"
proof -
  assume "a \<le> b"
  then have "\<lfloor>a\<rfloor> \<le> \<lfloor>b\<rfloor>" by (rule floor_mono)
  then have "bitlen \<lfloor>a\<rfloor> \<le> bitlen \<lfloor>b\<rfloor>"
    by (simp add: bitlen_def floorlog_mono)
  then show ?thesis by (simp add: ulpExp_def)
qed

lemma below_binade: "0 \<le> a \<Longrightarrow> a < 2 ^ (53 + ulpExp a)"
proof -
  assume "0 \<le> a"
  have "bitlen \<lfloor>a\<rfloor> \<le> int (53 + ulpExp a)"
    by (simp add: ulpExp_def)
  then have "\<lfloor>a\<rfloor> < 2 ^ nat (int (53 + ulpExp a))"
    by (simp only: bitlen_le_iff_power)
  then have "\<lfloor>a\<rfloor> < 2 ^ (53 + ulpExp a)"
    by (simp only: nat_int)
  then show ?thesis
    by (simp add: floor_less_iff)
qed

lemma above_binade: "1 \<le> ulpExp a \<Longrightarrow> 2 ^ (52 + ulpExp a) \<le> a"
proof -
  assume u: "1 \<le> ulpExp a"
  then have "int (53 + ulpExp a) \<le> bitlen \<lfloor>a\<rfloor>"
    by (simp add: ulpExp_def)
  then have "int (53 + ulpExp a) \<le> 0 \<or> 2 ^ (nat (int (53 + ulpExp a)) - 1) \<le> \<lfloor>a\<rfloor>"
    by (simp only: bitlen_ge_iff_power)
  then have "2 ^ (nat (int (53 + ulpExp a)) - 1) \<le> \<lfloor>a\<rfloor>"
    by simp
  moreover have "nat (int (53 + ulpExp a)) - 1 = 52 + ulpExp a"
    by simp
  ultimately have "2 ^ (52 + ulpExp a) \<le> \<lfloor>a\<rfloor>"
    by simp
  then show ?thesis
    by (simp add: le_floor_iff)
qed

lemma roundScaled_upper: "0 \<le> a \<Longrightarrow> roundScaled a \<le> 2 ^ (53 + ulpExp a)"
proof -
  assume "0 \<le> a"
  then have "a < 2 ^ (53 + ulpExp a)" by (rule below_binade)
  then have "a / 2 ^ ulpExp a \<le> of_int (2 ^ 53)"
    by (simp add: power_add field_simps)
  then have "rne (a / 2 ^ ulpExp a) \<le> 2 ^ 53" by (rule rne_le_int)
  then have "(of_int (rne (a / 2 ^ ulpExp a)) :: real) \<le> 2 ^ 53"
    by (metis of_int_le_iff of_int_numeral of_int_power)
  then show ?thesis
    by (simp add: roundScaled_def power_add)
qed

lemma roundScaled_lower: "1 \<le> ulpExp a \<Longrightarrow> 2 ^ (52 + ulpExp a) \<le> roundScaled a"
proof -
  assume "1 \<le> ulpExp a"
  then have "2 ^ (52 + ulpExp a) \<le> a" by (rule above_binade)
  then have "of_int (2 ^ 52) \<le> a / 2 ^ ulpExp a"
    by (simp add: power_add field_simps)
  then have "2 ^ 52 \<le> rne (a / 2 ^ ulpExp a)" by (rule rne_ge_int)
  then have "(2 ^ 52 :: real) \<le> of_int (rne (a / 2 ^ ulpExp a))"
    by (metis of_int_le_iff of_int_numeral of_int_power)
  then show ?thesis
    by (simp add: roundScaled_def power_add)
qed

lemma roundScaled_nonneg: "0 \<le> a \<Longrightarrow> 0 \<le> roundScaled a"
proof -
  assume "0 \<le> a"
  then have "of_int 0 \<le> a / 2 ^ ulpExp a" by simp
  then have "0 \<le> rne (a / 2 ^ ulpExp a)" by (rule rne_ge_int)
  then show ?thesis by (simp add: roundScaled_def)
qed

lemma roundScaled_mono: "0 \<le> a \<Longrightarrow> a \<le> b \<Longrightarrow> roundScaled a \<le> roundScaled b"
proof -
  assume a: "0 \<le> a" and ab: "a \<le> b"
  have u: "ulpExp a \<le> ulpExp b" using ab by (rule ulpExp_mono)
  show ?thesis
  proof (cases "ulpExp a = ulpExp b")
    case True
    from ab have "a / 2 ^ ulpExp b \<le> b / 2 ^ ulpExp b"
      by (simp add: divide_right_mono)
    then have "rne (a / 2 ^ ulpExp b) \<le> rne (b / 2 ^ ulpExp b)" by (rule rne_mono)
    then show ?thesis by (simp add: roundScaled_def True)
  next
    case False
    with u have lt: "ulpExp a + 1 \<le> ulpExp b" by simp
    then have "1 \<le> ulpExp b" by simp
    then have lo: "2 ^ (52 + ulpExp b) \<le> roundScaled b" by (rule roundScaled_lower)
    from a have "roundScaled a \<le> 2 ^ (53 + ulpExp a)" by (rule roundScaled_upper)
    also from lt have "(2::real) ^ (53 + ulpExp a) \<le> 2 ^ (52 + ulpExp b)"
      by (intro power_increasing) simp_all
    finally show ?thesis using lo by simp
  qed
qed

lemma roundScaled_0: "roundScaled 0 = 0"
  by (simp add: roundScaled_def rne_def)

lemma binary64_0: "binary64 0 = 0"
  by (simp add: binary64_def roundScaled_0)

lemma binary64_nonneg: "0 \<le> x \<Longrightarrow> 0 \<le> binary64 x"
  by (simp add: binary64_def roundScaled_nonneg)

lemma binary64_nonpos: "x \<le> 0 \<Longrightarrow> binary64 x \<le> 0"
proof (cases "x = 0")
  case True
  then show ?thesis by (simp add: binary64_0)
next
  case False
  assume "x \<le> 0"
  with False have "x < 0" by simp
  then have "0 \<le> (- x) * 2 ^ minExp"
    by (intro mult_nonneg_nonneg) simp_all
  then have "0 \<le> roundScaled (- x * 2 ^ minExp)"
    by (intro roundScaled_nonneg) simp
  with \<open>x < 0\<close> show ?thesis by (simp add: binary64_def)
qed

lemma binary64_mono: "x \<le> y \<Longrightarrow> binary64 x \<le> binary64 y"
proof -
  assume xy: "x \<le> y"
  consider "0 \<le> x" | "x < 0" "0 \<le> y" | "x < 0" "y < 0" by linarith
  then show ?thesis
  proof cases
    case 1
    with xy have "roundScaled (x * 2 ^ minExp) \<le> roundScaled (y * 2 ^ minExp)"
      by (intro roundScaled_mono) simp_all
    with 1 xy show ?thesis by (simp add: binary64_def divide_right_mono)
  next
    case 2
    then have "binary64 x \<le> 0" "0 \<le> binary64 y"
      by (simp_all add: binary64_nonpos binary64_nonneg)
    then show ?thesis by simp
  next
    case 3
    from 3 have "0 \<le> (- y) * 2 ^ minExp"
      by (intro mult_nonneg_nonneg) simp_all
    moreover from xy have "(- y) * 2 ^ minExp \<le> (- x) * 2 ^ minExp"
      by (intro mult_right_mono) simp_all
    ultimately have "roundScaled (- y * 2 ^ minExp) \<le> roundScaled (- x * 2 ^ minExp)"
      by (intro roundScaled_mono) simp_all
    with 3 show ?thesis by (simp add: binary64_def divide_right_mono)
  qed
qed

lemma ulpExp_binade:
  "2 ^ (52 + s) \<le> a \<Longrightarrow> a < 2 ^ (53 + s) \<Longrightarrow> ulpExp a = s"
proof -
  assume lo: "2 ^ (52 + s) \<le> a" and hi: "a < 2 ^ (53 + s)"
  from lo have "2 ^ (52 + s) \<le> \<lfloor>a\<rfloor>" by (simp add: le_floor_iff)
  moreover have "nat (int (53 + s)) - 1 = 52 + s" by simp
  ultimately have "2 ^ (nat (int (53 + s)) - 1) \<le> \<lfloor>a\<rfloor>" by (simp only:)
  then have 1: "int (53 + s) \<le> bitlen \<lfloor>a\<rfloor>"
    by (simp only: bitlen_ge_iff_power simp_thms)
  from hi have "\<lfloor>a\<rfloor> < 2 ^ (53 + s)" by (simp add: floor_less_iff)
  then have "\<lfloor>a\<rfloor> < 2 ^ nat (int (53 + s))" by (simp only: nat_int)
  then have 2: "bitlen \<lfloor>a\<rfloor> \<le> int (53 + s)"
    by (simp only: bitlen_le_iff_power) simp
  from 1 2 show ?thesis by (simp add: ulpExp_def)
qed

text \<open>A number whose 53 leading bits end \<open>k\<close> places after the binary point is rounded at
  that place.\<close>

lemma binary64_eval:
  assumes "2 ^ 52 \<le> x * 2 ^ k" and "x * 2 ^ k < 2 ^ 53" and "k \<le> minExp"
  shows "binary64 x = of_int (rne (x * 2 ^ k)) / 2 ^ k"
proof -
  define s where "s = minExp - k"
  have pos: "0 < x"
  proof (rule ccontr)
    assume "\<not> 0 < x"
    then have "x * 2 ^ k \<le> 0" by (simp add: mult_le_0_iff)
    with assms(1) show False by (smt (verit) zero_less_power)
  qed
  have p: "(2::real) ^ minExp = 2 ^ k * 2 ^ s"
    using assms(3) by (simp add: s_def power_add [symmetric])
  have sc: "x * 2 ^ minExp = (x * 2 ^ k) * 2 ^ s"
    by (simp add: p)
  have "2 ^ (52 + s) \<le> x * 2 ^ minExp" "x * 2 ^ minExp < 2 ^ (53 + s)"
    using assms(1,2) by (simp_all add: sc power_add)
  then have u: "ulpExp (x * 2 ^ minExp) = s" by (rule ulpExp_binade)
  have "x * 2 ^ minExp / 2 ^ s = x * 2 ^ k"
    by (simp add: sc)
  then have "roundScaled (x * 2 ^ minExp) = of_int (rne (x * 2 ^ k)) * 2 ^ s"
    by (simp add: roundScaled_def u)
  then have "roundScaled (x * 2 ^ minExp) / 2 ^ minExp = of_int (rne (x * 2 ^ k)) / 2 ^ k"
    by (simp add: p)
  with pos show ?thesis by (simp add: binary64_def)
qed

text \<open>A number with at most 53 significant bits, on the grid of \<open>2 ^ -1074\<close>, is its own
  rounding.\<close>

lemma binary64_exact_pos:
  assumes "x * 2 ^ k = of_int n" and "0 < n" and "n < 2 ^ 53" and "k \<le> minExp"
  shows "binary64 x = x"
proof -
  define m where "m = minExp - k"
  define a where "a = x * 2 ^ minExp"
  define u where "u = ulpExp a"
  have a: "a = of_int n * 2 ^ m"
  proof -
    have "a = (x * 2 ^ k) * 2 ^ m"
      using assms(4) by (simp add: a_def m_def power_add [symmetric])
    then show ?thesis by (simp add: assms(1))
  qed
  have pos: "0 < x"
  proof (rule ccontr)
    assume "\<not> 0 < x"
    then have "x * 2 ^ k \<le> 0" by (simp add: mult_le_0_iff)
    with assms(1,2) show False by simp
  qed
  have "bitlen n \<le> 53"
    using assms(3) by (simp add: bitlen_le_iff_power)
  then have "bitlen (n * 2 ^ m) \<le> 53 + int m"
    using assms(2) by simp
  moreover have "\<lfloor>a\<rfloor> = n * 2 ^ m"
  proof -
    have "a = of_int (n * 2 ^ m)" by (simp add: a)
    then show ?thesis by (simp only: floor_of_int)
  qed
  ultimately have "u \<le> m"
    by (simp add: u_def ulpExp_def)
  then obtain d where d: "m = d + u"
    by (metis add.commute le_Suc_ex)
  have "a / 2 ^ u = of_int (n * 2 ^ d)"
    by (simp add: a d power_add)
  then have "rne (a / 2 ^ u) = n * 2 ^ d"
    by (simp only: rne_of_int)
  then have "roundScaled a = of_int (n * 2 ^ d) * 2 ^ u"
    by (simp only: roundScaled_def u_def)
  also have "\<dots> = a"
    by (simp add: a d power_add)
  finally have "roundScaled a = a" .
  with pos show ?thesis by (simp add: binary64_def a_def)
qed

lemma binary64_numeral: "numeral v < (2::int) ^ 53 \<Longrightarrow> binary64 (numeral v) = numeral v"
  using binary64_exact_pos [of "numeral v" 0 "numeral v"] by simp

lemma binary64_1: "binary64 1 = 1"
  using binary64_exact_pos [of 1 0 1] by simp

lemma binary64_half: "binary64 (1 / 2) = 1 / 2"
  using binary64_exact_pos [of "1 / 2" 1 1] by (simp add: minExp_def)

lemma binary64_quarter: "binary64 (1 / 4) = 1 / 4"
  using binary64_exact_pos [of "1 / 4" 2 1] by (simp add: minExp_def)

lemmas binary64_sample = binary64_0 binary64_1 binary64_numeral binary64_half binary64_quarter

section \<open>Collecting results\<close>

lemma collect_all_Inr: "collect (map Inr xs) = Inr xs"
  by (induction xs) simp_all

lemma collect_Inl: "Inl e \<in> set rs \<Longrightarrow> \<exists>e'. collect rs = Inl e'"
proof (induction rs)
  case Nil
  then show ?case by simp
next
  case (Cons r rs)
  show ?case
  proof (cases r)
    case (Inl e')
    then show ?thesis by simp
  next
    case (Inr x)
    with Cons.prems have "Inl e \<in> set rs" by auto
    then obtain e' where "collect rs = Inl e'" using Cons.IH by blast
    with Inr show ?thesis by simp
  qed
qed

section \<open>Evaluating the sample host\<close>

lemma parseTime_sample:
  "parseTime sampleHost ''00:00'' = Num 0"
  "parseTime sampleHost ''06:00'' = Num 6"
  "parseTime sampleHost ''12:00'' = Num 12"
  "parseTime sampleHost ''13:00'' = Num 13"
  "parseTime sampleHost ''noon'' = NaN"
  by (simp_all add: parseTime_def sampleHost_def decimalNumber_def binary64_sample)

section \<open>The bar of one activity\<close>

lemma timeX_Num:
  "timeX x width (Num t) = Num (binary64 (x + binary64 (binary64 (t / 24) * width)))"
  by (simp add: timeX_def)

lemma timeX_NaN: "timeX x width NaN = NaN"
  by (simp add: timeX_def)

lemma jsSub_NaN: "jsSub a NaN = NaN" "jsSub NaN b = NaN"
  by (cases a; simp) simp

lemma drawActivity_calls:
  "drawActivity h x yStart width rowHeight a ctx =
     ctx @ [SetFillStyle (barFillStyle (act_type a)),
            FillRect (timeX x width (parseTime h (act_start a)))
                     (yStart + real (rowIndex (act_type a)) * rowHeight - 10)
                     (jsSub (timeX x width (parseTime h (act_end a)))
                            (timeX x width (parseTime h (act_start a))))
                     (rowHeight - 2),
            SetStrokeStyle ''#000'',
            SetLineWidth 1,
            StrokeRect (timeX x width (parseTime h (act_start a)))
                       (yStart + real (rowIndex (act_type a)) * rowHeight - 10)
                       (jsSub (timeX x width (parseTime h (act_end a)))
                              (timeX x width (parseTime h (act_start a))))
                       (rowHeight - 2)]"
  by (simp add: drawActivity_def Let_def)

text \<open>
  C1. The row of a bar is \<open>rowIndex\<close> of the activity's type. The code sends \<open>driving\<close> to
  row 2 and \<open>on_duty\<close> to row 3 and every other type to row 0: \<open>sleeper_berth\<close> has no
  branch of its own, so a sleeper-berth bar is drawn in the Off Duty row (top edge
  \<open>270 + 0 * 50 - 10 = 260\<close> on the sheet, where row 1 would give 310), although the
  sheet labels row 1 as "2. Sleeper Berth".
\<close>

theorem rowIndex_sleeper_berth:
  "rowIndex ''off_duty'' = 0 \<and> rowIndex ''driving'' = 2 \<and> rowIndex ''on_duty'' = 3
   \<and> rowIndex ''sleeper_berth'' = 0
   \<and> statusLabels ! 1 = ''2. Sleeper Berth''
   \<and> drawActivity sampleHost 240 270 720 50
        \<lparr> act_type = ''sleeper_berth'', act_start = ''00:00'', act_end = ''06:00'' \<rparr> []
      = [SetFillStyle ''#3498db'',
         FillRect (Num 240) 260 (Num 180) 48,
         SetStrokeStyle ''#000'',
         SetLineWidth 1,
         StrokeRect (Num 240) 260 (Num 180) 48]"
  by (simp add: rowIndex_def statusLabels_def drawActivity_calls barFillStyle_def
      parseTime_sample timeX_Num binary64_sample)

lemma parseTime_0855:
  "parseTime sampleHost ''08:55'' = Num (5019637084673365 / 2 ^ 49)"
proof -
  have m: "binary64 (55 / 60) = 8256599316845909 / 2 ^ 53"
    using binary64_eval [of "55 / 60" 53] by (simp add: minExp_def rne_def)
  have h: "binary64 (8 + 8256599316845909 / 2 ^ 53) = 5019637084673365 / 2 ^ 49"
    using binary64_eval [of "8 + 8256599316845909 / 2 ^ 53" 49]
    by (simp add: minExp_def rne_def)
  have p: "parseTime sampleHost ''08:55'' = Num (binary64 (8 + binary64 (55 / 60)))"
    by (simp add: parseTime_def sampleHost_def decimalNumber_def)
  show ?thesis
    unfolding p m h ..
qed

lemma timeX_0855:
  "timeX 240 720 (Num (5019637084673365 / 2 ^ 49)) = Num (8928034417541119 / 2 ^ 44)"
proof -
  have d: "binary64 (5019637084673365 / 2 ^ 49 / 24) = 6692849446231153 / 2 ^ 54"
    using binary64_eval [of "5019637084673365 / 2 ^ 49 / 24" 54]
    by (simp add: minExp_def rne_def)
  have p: "binary64 (6692849446231153 / 2 ^ 54 * 720) = 4705909766881279 / 2 ^ 44"
    using binary64_eval [of "6692849446231153 / 2 ^ 54 * 720" 44]
    by (simp add: minExp_def rne_def)
  have x: "binary64 (240 + 4705909766881279 / 2 ^ 44) = 8928034417541119 / 2 ^ 44"
    using binary64_eval [of "240 + 4705909766881279 / 2 ^ 44" 44]
    by (simp add: minExp_def rne_def)
  show ?thesis
    unfolding timeX_Num d p x ..
qed

text \<open>
  C2, as stated, fails in its first part: the mapping does not return exactly
  \<open>x0 + (h / 24) * w\<close>. On the sheet (\<open>x0 = 240\<close>, \<open>w = 720\<close>) the time \<open>08:55\<close> parses to
  the binary64 number \<open>5019637084673365 / 2 ^ 49\<close>, and for that hour the code computes
  \<open>8928034417541119 / 2 ^ 44\<close> (507.49999999999994), which is neither the exact value of the
  expression at that hour nor 507.5.
\<close>

theorem timeX_not_exact:
  "parseTime sampleHost ''08:55'' = Num (5019637084673365 / 2 ^ 49)
   \<and> timeX 240 720 (Num (5019637084673365 / 2 ^ 49)) = Num (8928034417541119 / 2 ^ 44)
   \<and> timeX 240 720 (Num (5019637084673365 / 2 ^ 49))
       \<noteq> Num (240 + (5019637084673365 / 2 ^ 49 / 24) * 720)
   \<and> timeX 240 720 (Num (5019637084673365 / 2 ^ 49)) \<noteq> Num (1015 / 2)"
proof -
  have "(8928034417541119 / 2 ^ 44 :: real) \<noteq> 240 + (5019637084673365 / 2 ^ 49 / 24) * 720"
    by simp
  moreover have "(8928034417541119 / 2 ^ 44 :: real) \<noteq> 1015 / 2"
    by simp
  ultimately show ?thesis
    by (simp only: parseTime_0855 timeX_0855 jsnum.inject simp_thms)
qed

text \<open>
  C2, amended. For every hour \<open>h\<close>, origin \<open>x0\<close> and width \<open>w\<close> the mapping returns
  \<open>x0 + (h / 24) * w\<close> evaluated in binary64, each of the three operations rounded to the
  nearest number, in the bar builder (\<open>timeX\<close>) and in the hour loop of the grid (\<open>hourX\<close>)
  alike. For binary64 numbers \<open>x0\<close> and \<open>w\<close> it returns \<open>x0\<close> at hour 0 and the rounded
  sum of \<open>x0\<close> and \<open>w\<close> at hour 24, which on the sheet is \<open>240 + 720 = 960\<close>; and for a
  width \<open>w \<ge> 0\<close> it does not decrease when the hour grows.
\<close>

theorem timeX_boundaries_monotone:
  "timeX x0 w (Num h) = Num (binary64 (x0 + binary64 (binary64 (h / 24) * w)))
   \<and> Num (hourX x0 w n) = timeX x0 w (Num (real n))
   \<and> (binary64 x0 = x0 \<longrightarrow> timeX x0 w (Num 0) = Num x0)
   \<and> (binary64 w = w \<longrightarrow> timeX x0 w (Num 24) = Num (binary64 (x0 + w)))
   \<and> timeX 240 720 (Num 0) = Num 240
   \<and> timeX 240 720 (Num 24) = Num 960
   \<and> (0 \<le> w \<longrightarrow> h1 \<le> h2 \<longrightarrow> jsLe (timeX x0 w (Num h1)) (timeX x0 w (Num h2)))"
proof -
  have mono: "jsLe (timeX x0 w (Num h1)) (timeX x0 w (Num h2))" if w: "0 \<le> w" and h: "h1 \<le> h2"
  proof -
    from h have "h1 / 24 \<le> h2 / 24" by simp
    then have "binary64 (h1 / 24) \<le> binary64 (h2 / 24)" by (rule binary64_mono)
    then have "binary64 (h1 / 24) * w \<le> binary64 (h2 / 24) * w"
      using w by (rule mult_right_mono)
    then have "binary64 (binary64 (h1 / 24) * w) \<le> binary64 (binary64 (h2 / 24) * w)"
      by (rule binary64_mono)
    then have "x0 + binary64 (binary64 (h1 / 24) * w) \<le> x0 + binary64 (binary64 (h2 / 24) * w)"
      by simp
    then have "binary64 (x0 + binary64 (binary64 (h1 / 24) * w))
               \<le> binary64 (x0 + binary64 (binary64 (h2 / 24) * w))"
      by (rule binary64_mono)
    then show ?thesis by (simp add: timeX_Num)
  qed
  then have 7: "0 \<le> w \<longrightarrow> h1 \<le> h2 \<longrightarrow> jsLe (timeX x0 w (Num h1)) (timeX x0 w (Num h2))"
    by blast
  have 1: "timeX x0 w (Num h) = Num (binary64 (x0 + binary64 (binary64 (h / 24) * w)))"
    by (rule timeX_Num)
  have 2: "Num (hourX x0 w n) = timeX x0 w (Num (real n))"
    by (simp add: timeX_Num hourX_def)
  have 3: "binary64 x0 = x0 \<longrightarrow> timeX x0 w (Num 0) = Num x0"
    by (simp add: timeX_Num binary64_0)
  have 4: "binary64 w = w \<longrightarrow> timeX x0 w (Num 24) = Num (binary64 (x0 + w))"
    by (simp add: timeX_Num binary64_1)
  have 5: "timeX 240 720 (Num 0) = Num 240"
    by (simp add: timeX_Num binary64_sample)
  have 6: "timeX 240 720 (Num 24) = Num 960"
    by (simp add: timeX_Num binary64_sample)
  from 1 2 3 4 5 6 7 show ?thesis
    by (intro conjI)
qed

theorem timeX_boundaries_monotone_witness:
  "binary64 240 = 240 \<and> binary64 720 = 720 \<and> (0::real) \<le> 720 \<and> (6::real) \<le> 12
   \<and> timeX 240 720 (Num 0) = Num 240
   \<and> timeX 240 720 (Num 24) = Num (binary64 (240 + 720))
   \<and> jsLe (timeX 240 720 (Num 6)) (timeX 240 720 (Num 12))"
proof -
  have r: "binary64 240 = 240" "binary64 720 = 720"
    by (simp_all add: binary64_sample)
  have o: "(0::real) \<le> 720" "(6::real) \<le> 12"
    by simp_all
  note t = timeX_boundaries_monotone [of 240 720 6 0 6 12]
  from t r(1) have 1: "timeX 240 720 (Num 0) = Num 240"
    by blast
  from t r(2) have 2: "timeX 240 720 (Num 24) = Num (binary64 (240 + 720))"
    by blast
  from t o have 3: "jsLe (timeX 240 720 (Num 6)) (timeX 240 720 (Num 12))"
    by blast
  from r o 1 2 3 show ?thesis
    by (intro conjI)
qed

section \<open>The loops of the grid\<close>

lemma horizontalLines_unfold:
  "horizontalLines i ctx tx tw ys rh =
     ctx @ concat (map (\<lambda>i. [BeginPath, MoveTo tx (ys + real i * rh - 10),
                               LineTo (tx + tw) (ys + real i * rh - 10), Stroke]) [i..<5])"
proof (induction i ctx tx tw ys rh rule: horizontalLines.induct)
  case (1 i ctx tx tw ys rh)
  show ?case
  proof (cases "i \<le> 4")
    case True
    then have "[i..<5] = i # [Suc i..<5]" by (simp add: upt_conv_Cons)
    with True 1 show ?thesis by (simp add: Let_def)
  next
    case False
    then show ?thesis by simp
  qed
qed

lemma timeMarkers_unfold:
  "timeMarkers hour ctx tx tw ys rh = ctx @ concat (map (timeMarker tx tw ys rh) [hour..<25])"
proof (induction hour ctx tx tw ys rh rule: timeMarkers.induct)
  case (1 hour ctx tx tw ys rh)
  show ?case
  proof (cases "hour \<le> 24")
    case True
    then have "[hour..<25] = hour # [Suc hour..<25]" by (simp add: upt_conv_Cons)
    with True 1 show ?thesis by simp
  next
    case False
    then show ?thesis by simp
  qed
qed

lemma drawTimelineGrid_calls:
  "drawTimelineGrid ctx tx tw ys rh =
     ctx @ [SetStrokeStyle ''#333'', SetLineWidth 1]
         @ concat (map (\<lambda>i. [BeginPath, MoveTo tx (ys + real i * rh - 10),
                                LineTo (tx + tw) (ys + real i * rh - 10), Stroke]) [0..<5])
         @ [SetFont ''10px Arial'', SetFillStyle ''#333'']
         @ concat (map (timeMarker tx tw ys rh) [0..<25])"
  by (simp only: drawTimelineGrid_def Let_def horizontalLines_unfold timeMarkers_unfold
      append_assoc)

lemma textsOf_append: "textsOf (xs @ ys) = textsOf xs @ textsOf ys"
  by (simp add: textsOf_def)

lemma textsOf_concat: "textsOf (concat xss) = concat (map textsOf xss)"
  by (induction xss) (simp_all add: textsOf_def)

lemma rectsOf_append: "rectsOf (xs @ ys) = rectsOf xs @ rectsOf ys"
  by (simp add: rectsOf_def)

lemma rectsOf_concat: "rectsOf (concat xss) = concat (map rectsOf xss)"
  by (induction xss) (simp_all add: rectsOf_def)

lemma count_list_concat:
  "count_list (concat xss) c = sum_list (map (\<lambda>xs. count_list xs c) xss)"
  by (induction xss) simp_all

lemma textsOf_timeMarker:
  "textsOf (timeMarker tx tw ys rh hour) = (if hour mod 2 = 0 then [hourLabel hour] else [])"
  by (simp add: textsOf_def timeMarker_def Let_def)

lemma count_timeMarker: "count_list (timeMarker tx tw ys rh hour) Stroke = 1"
  by (simp add: timeMarker_def Let_def)

lemma rectsOf_timeMarker: "rectsOf (timeMarker tx tw ys rh hour) = []"
  by (simp add: timeMarker_def Let_def rectsOf_def)

lemma upt_0_25:
  "[0..<25] = [0, 1, 2, 3, 4, 5, 6, 7, 8, 9, 10, 11, 12, 13, 14, 15, 16, 17, 18, 19, 20,
               21, 22, 23, 24]"
  by (simp add: upt_rec)

lemma textsOf_timeMarkers:
  "textsOf (concat (map (timeMarker tx tw ys rh) [0..<25])) =
     [''Mid'', ''2'', ''4'', ''6'', ''8'', ''10'', ''Noon'',
      ''2'', ''4'', ''6'', ''8'', ''10'', ''12'']"
  by (simp add: upt_0_25 textsOf_append textsOf_timeMarker hourLabel_def showNat.simps)

lemma count_timeMarkers:
  "count_list (concat (map (timeMarker tx tw ys rh) [0..<25])) Stroke = 25"
  by (simp add: count_list_concat o_def count_timeMarker sum_list_triv)

lemma count_horizontalLines:
  "count_list (concat (map (\<lambda>i. [BeginPath, MoveTo tx (ys + real i * rh - 10),
                                    LineTo (tx + tw) (ys + real i * rh - 10), Stroke])
                           [0..<5])) Stroke = 5"
  by (simp add: count_list_concat o_def sum_list_triv)

lemma textsOf_drawTimelineGrid:
  "textsOf (drawTimelineGrid [] tx tw ys rh) =
     [''Mid'', ''2'', ''4'', ''6'', ''8'', ''10'', ''Noon'',
      ''2'', ''4'', ''6'', ''8'', ''10'', ''12'']"
proof -
  have "textsOf (concat (map (\<lambda>i. [BeginPath, MoveTo tx (ys + real i * rh - 10),
                                     LineTo (tx + tw) (ys + real i * rh - 10), Stroke])
                            [0..<5])) = []"
    by (simp add: textsOf_concat) (simp add: textsOf_def)
  then show ?thesis
    by (simp only: drawTimelineGrid_calls textsOf_append textsOf_timeMarkers)
       (simp add: textsOf_def)
qed

lemma count_drawTimelineGrid: "count_list (drawTimelineGrid [] tx tw ys rh) Stroke = 30"
  by (simp only: drawTimelineGrid_calls count_list_append count_timeMarkers
      count_horizontalLines) simp

lemma rectsOf_drawTimelineGrid: "rectsOf (drawTimelineGrid [] tx tw ys rh) = []"
proof -
  have "rectsOf (concat (map (\<lambda>i. [BeginPath, MoveTo tx (ys + real i * rh - 10),
                                     LineTo (tx + tw) (ys + real i * rh - 10), Stroke])
                            [0..<5])) = []"
    by (simp add: rectsOf_concat) (simp add: rectsOf_def)
  moreover have "rectsOf (concat (map (timeMarker tx tw ys rh) [0..<25])) = []"
    by (simp add: rectsOf_concat rectsOf_timeMarker)
  ultimately show ?thesis
    by (simp only: drawTimelineGrid_calls rectsOf_append) (simp add: rectsOf_def)
qed

section \<open>The sequence of one sheet\<close>

lemma drawHeader_append: "drawHeader h ctx margin width dlog = ctx @ drawHeader h [] margin width dlog"
  by (simp add: drawHeader_def)

lemma drawRecap_append: "drawRecap h ctx margin recapY dlog = ctx @ drawRecap h [] margin recapY dlog"
  by (simp add: drawRecap_def Let_def)

lemma drawStatusLabels_calls:
  "drawStatusLabels ctx margin ys rh =
     ctx @ [FillText ''1. Off Duty'' (margin + 20) (ys + 15),
            FillText ''2. Sleeper Berth'' (margin + 20) (ys + rh + 15),
            FillText ''3. Driving'' (margin + 20) (ys + 2 * rh + 15),
            FillText ''4. On Duty (not driving)'' (margin + 20) (ys + 3 * rh + 15)]"
  by (simp add: drawStatusLabels_def statusLabels_def Let_def)

lemma drawStatusLabels_append:
  "drawStatusLabels ctx margin ys rh = ctx @ drawStatusLabels [] margin ys rh"
  by (simp add: drawStatusLabels_calls)

lemma drawTimelineGrid_append:
  "drawTimelineGrid ctx tx tw ys rh = ctx @ drawTimelineGrid [] tx tw ys rh"
  by (simp add: drawTimelineGrid_calls)

lemma drawActivity_append:
  "drawActivity h x ys w rh a ctx = ctx @ drawActivity h x ys w rh a []"
  by (simp add: drawActivity_calls)

lemma fold_drawActivity_concat:
  "fold (drawActivity h x ys w rh) as ctx =
     ctx @ concat (map (\<lambda>a. drawActivity h x ys w rh a []) as)"
proof (induction as arbitrary: ctx)
  case Nil
  show ?case by simp
next
  case (Cons a as)
  have "fold (drawActivity h x ys w rh) (a # as) ctx
        = fold (drawActivity h x ys w rh) as (drawActivity h x ys w rh a ctx)"
    by simp
  also have "\<dots> = drawActivity h x ys w rh a ctx
                    @ concat (map (\<lambda>a. drawActivity h x ys w rh a []) as)"
    by (rule Cons.IH)
  also have "drawActivity h x ys w rh a ctx = ctx @ drawActivity h x ys w rh a []"
    by (rule drawActivity_append)
  finally show ?case by simp
qed

lemma drawDutyStatusTimeline_bars:
  "drawDutyStatusTimeline h ctx dlog x ys w rh =
     ctx @ concat (map (\<lambda>a. drawActivity h x ys w rh a [])
                       (case activities dlog of None \<Rightarrow> [] | Some as \<Rightarrow> as))"
  unfolding drawDutyStatusTimeline_def by (rule fold_drawActivity_concat)

lemma drawDutyStatusTimeline_append:
  "drawDutyStatusTimeline h ctx dlog x ys w rh = ctx @ drawDutyStatusTimeline h [] dlog x ys w rh"
  by (simp add: drawDutyStatusTimeline_bars)

lemma drawLogSheet_sequence:
  "drawLogSheet h ctx width height dlog =
     ctx @ drawHeader h [] 40 width dlog
         @ drawStatusLabels [] 40 270 50
         @ drawTimelineGrid [] 240 (width - 280) 270 50
         @ drawDutyStatusTimeline h [] dlog 240 270 (width - 280) 50
         @ drawRecap h [] 40 600 dlog"
proof -
  have "drawLogSheet h ctx width height dlog =
          drawRecap h
            (drawDutyStatusTimeline h
               (drawTimelineGrid
                  (drawStatusLabels (drawHeader h ctx 40 width dlog) 40 270 50)
                  240 (width - 280) 270 50)
               dlog 240 270 (width - 280) 50)
            40 600 dlog"
    by (simp add: drawLogSheet_def Let_def)
  also have "\<dots> = ctx @ drawHeader h [] 40 width dlog
         @ drawStatusLabels [] 40 270 50
         @ drawTimelineGrid [] 240 (width - 280) 270 50
         @ drawDutyStatusTimeline h [] dlog 240 270 (width - 280) 50
         @ drawRecap h [] 40 600 dlog"
    by (subst drawRecap_append, subst drawDutyStatusTimeline_append,
        subst drawTimelineGrid_append, subst drawStatusLabels_append,
        subst drawHeader_append) simp
  finally show ?thesis .
qed

lemma useEffectDraw_sequence:
  "useEffectDraw h ctx0 dlog =
     ctx0 @ [ClearRect 0 0 1000 1400, SetFillStyle ''#000'', SetStrokeStyle ''#000'',
             SetLineWidth 1, SetFont ''12px Arial'']
          @ drawHeader h [] 40 1000 dlog
          @ drawStatusLabels [] 40 270 50
          @ drawTimelineGrid [] 240 720 270 50
          @ drawDutyStatusTimeline h [] dlog 240 270 720 50
          @ drawRecap h [] 40 600 dlog"
  by (simp add: useEffectDraw_def Let_def drawLogSheet_sequence)

lemma count_drawActivity: "count_list (drawActivity h x ys w rh a []) Stroke = 0"
  by (simp add: drawActivity_calls)

lemma count_drawDutyStatusTimeline:
  "count_list (drawDutyStatusTimeline h [] dlog x ys w rh) Stroke = 0"
  by (simp add: drawDutyStatusTimeline_bars count_list_concat o_def count_drawActivity)

lemma count_useEffectDraw: "count_list (useEffectDraw h [] dlog) Stroke = 30"
proof -
  have "count_list (drawHeader h [] 40 1000 dlog) Stroke = 0"
    by (simp add: drawHeader_def)
  moreover have "count_list (drawStatusLabels [] 40 270 50) Stroke = 0"
    by (simp add: drawStatusLabels_calls)
  moreover have "count_list (drawRecap h [] 40 600 dlog) Stroke = 0"
    by (simp add: drawRecap_def Let_def)
  ultimately show ?thesis
    by (simp add: useEffectDraw_sequence count_drawTimelineGrid count_drawDutyStatusTimeline)
qed

lemma rectsOf_before_bars:
  "rectsOf (drawHeader h [] 40 1000 dlog @ drawStatusLabels [] 40 270 50
            @ drawTimelineGrid [] 240 720 270 50) = []"
proof -
  have "rectsOf (drawHeader h [] 40 1000 dlog) = []"
    by (simp add: drawHeader_def rectsOf_def)
  moreover have "rectsOf (drawStatusLabels [] 40 270 50) = []"
    by (simp add: drawStatusLabels_calls rectsOf_def)
  ultimately show ?thesis
    by (simp add: rectsOf_append rectsOf_drawTimelineGrid)
qed

section \<open>The bars of a log\<close>



lemma drawDutyStatusTimeline_split:
  "activities dlog = Some (as1 @ a # as2) \<Longrightarrow>
     drawDutyStatusTimeline h ctx dlog x ys w rh =
       ctx @ concat (map (\<lambda>b. drawActivity h x ys w rh b []) as1)
           @ drawActivity h x ys w rh a []
           @ concat (map (\<lambda>b. drawActivity h x ys w rh b []) as2)"
  by (simp add: drawDutyStatusTimeline_bars)

lemma useEffectDraw_split:
  "activities dlog = Some (as1 @ a # as2) \<Longrightarrow>
     useEffectDraw h ctx0 dlog =
       ctx0 @ [ClearRect 0 0 1000 1400, SetFillStyle ''#000'', SetStrokeStyle ''#000'',
               SetLineWidth 1, SetFont ''12px Arial'']
            @ drawHeader h [] 40 1000 dlog
            @ drawStatusLabels [] 40 270 50
            @ drawTimelineGrid [] 240 720 270 50
            @ concat (map (\<lambda>b. drawActivity h 240 270 720 50 b []) as1)
            @ drawActivity h 240 270 720 50 a []
            @ concat (map (\<lambda>b. drawActivity h 240 270 720 50 b []) as2)
            @ drawRecap h [] 40 600 dlog"
  by (simp add: useEffectDraw_sequence drawDutyStatusTimeline_split [of dlog as1 a as2 h "[]"])




text \<open>
  C9. An activity of the log whose start and end are the same string, parsing to the hour
  \<open>t\<close>, is drawn like any other, in its place among the bars of the log: the five calls
  are made, and the rectangle starts at the time-axis position of \<open>t\<close> with width 0.
\<close>

theorem zero_width_bar:
  assumes "activities dlog = Some (as1 @ a # as2)"
    and "act_start a = act_end a" and "parseTime h (act_start a) = Num t"
  shows "drawDutyStatusTimeline h ctx dlog x yStart width rowHeight =
           ctx @ concat (map (\<lambda>b. drawActivity h x yStart width rowHeight b []) as1)
               @ [SetFillStyle (barFillStyle (act_type a)),
                  FillRect (timeX x width (Num t))
                           (yStart + real (rowIndex (act_type a)) * rowHeight - 10)
                           (Num 0) (rowHeight - 2),
                  SetStrokeStyle ''#000'',
                  SetLineWidth 1,
                  StrokeRect (timeX x width (Num t))
                             (yStart + real (rowIndex (act_type a)) * rowHeight - 10)
                             (Num 0) (rowHeight - 2)]
               @ concat (map (\<lambda>b. drawActivity h x yStart width rowHeight b []) as2)
         \<and> useEffectDraw h ctx0 dlog =
             ctx0 @ [ClearRect 0 0 1000 1400, SetFillStyle ''#000'', SetStrokeStyle ''#000'',
                     SetLineWidth 1, SetFont ''12px Arial'']
                  @ drawHeader h [] 40 1000 dlog
                  @ drawStatusLabels [] 40 270 50
                  @ drawTimelineGrid [] 240 720 270 50
                  @ concat (map (\<lambda>b. drawActivity h 240 270 720 50 b []) as1)
                  @ [SetFillStyle (barFillStyle (act_type a)),
                     FillRect (timeX 240 720 (Num t))
                              (270 + real (rowIndex (act_type a)) * 50 - 10) (Num 0) 48,
                     SetStrokeStyle ''#000'',
                     SetLineWidth 1,
                     StrokeRect (timeX 240 720 (Num t))
                                (270 + real (rowIndex (act_type a)) * 50 - 10) (Num 0) 48]
                  @ concat (map (\<lambda>b. drawActivity h 240 270 720 50 b []) as2)
                  @ drawRecap h [] 40 600 dlog"
proof -
  have e: "parseTime h (act_end a) = Num t"
    using assms(2,3) by simp
  have w: "jsSub (timeX x' w' (Num t)) (timeX x' w' (Num t)) = Num 0" for x' w'
    by (simp add: timeX_Num binary64_0)
  have bar: "drawActivity h x' y' w' r' a [] =
               [SetFillStyle (barFillStyle (act_type a)),
                FillRect (timeX x' w' (Num t)) (y' + real (rowIndex (act_type a)) * r' - 10)
                         (Num 0) (r' - 2),
                SetStrokeStyle ''#000'',
                SetLineWidth 1,
                StrokeRect (timeX x' w' (Num t)) (y' + real (rowIndex (act_type a)) * r' - 10)
                           (Num 0) (r' - 2)]"
    for x' y' w' r'
    by (simp only: drawActivity_calls assms(3) e w append_Nil)
  have 1: "drawDutyStatusTimeline h ctx dlog x yStart width rowHeight =
           ctx @ concat (map (\<lambda>b. drawActivity h x yStart width rowHeight b []) as1)
               @ drawActivity h x yStart width rowHeight a []
               @ concat (map (\<lambda>b. drawActivity h x yStart width rowHeight b []) as2)"
    using assms(1) by (rule drawDutyStatusTimeline_split)
  have 3: "useEffectDraw h ctx0 dlog =
       ctx0 @ [ClearRect 0 0 1000 1400, SetFillStyle ''#000'', SetStrokeStyle ''#000'',
               SetLineWidth 1, SetFont ''12px Arial'']
            @ drawHeader h [] 40 1000 dlog
            @ drawStatusLabels [] 40 270 50
            @ drawTimelineGrid [] 240 720 270 50
            @ concat (map (\<lambda>b. drawActivity h 240 270 720 50 b []) as1)
            @ drawActivity h 240 270 720 50 a []
            @ concat (map (\<lambda>b. drawActivity h 240 270 720 50 b []) as2)
            @ drawRecap h [] 40 600 dlog"
    using assms(1) by (rule useEffectDraw_split)
  have 6: "(50::real) - 2 = 48" by simp
  from 1 3 show ?thesis
    unfolding bar 6 by (intro conjI)
qed

theorem zero_width_bar_witness:
  "activities (sampleLog\<lparr> activities := Some
       ([\<lparr> act_type = ''driving'', act_start = ''06:00'', act_end = ''12:00'' \<rparr>]
        @ \<lparr> act_type = ''on_duty'', act_start = ''12:00'', act_end = ''12:00'' \<rparr> # []) \<rparr>)
     = Some ([\<lparr> act_type = ''driving'', act_start = ''06:00'', act_end = ''12:00'' \<rparr>]
             @ \<lparr> act_type = ''on_duty'', act_start = ''12:00'', act_end = ''12:00'' \<rparr> # [])
   \<and> act_start \<lparr> act_type = ''on_duty'', act_start = ''12:00'', act_end = ''12:00'' \<rparr>
       = act_end \<lparr> act_type = ''on_duty'', act_start = ''12:00'', act_end = ''12:00'' \<rparr>
   \<and> parseTime sampleHost ''12:00'' = Num 12
   \<and> drawDutyStatusTimeline sampleHost []
        (sampleLog\<lparr> activities := Some
           [\<lparr> act_type = ''driving'', act_start = ''06:00'', act_end = ''12:00'' \<rparr>,
            \<lparr> act_type = ''on_duty'', act_start = ''12:00'', act_end = ''12:00'' \<rparr>] \<rparr>)
        240 270 720 50
      = [SetFillStyle ''#e74c3c'',
         FillRect (Num 420) 360 (Num 180) 48,
         SetStrokeStyle ''#000'',
         SetLineWidth 1,
         StrokeRect (Num 420) 360 (Num 180) 48,
         SetFillStyle ''#f39c12'',
         FillRect (Num 600) 410 (Num 0) 48,
         SetStrokeStyle ''#000'',
         SetLineWidth 1,
         StrokeRect (Num 600) 410 (Num 0) 48]"
proof -
  let ?drv = "\<lparr> act_type = ''driving'', act_start = ''06:00'', act_end = ''12:00'' \<rparr>"
  let ?a = "\<lparr> act_type = ''on_duty'', act_start = ''12:00'', act_end = ''12:00'' \<rparr>"
  let ?log = "sampleLog\<lparr> activities := Some ([?drv] @ ?a # []) \<rparr>"
  have 0: "activities ?log = Some ([?drv] @ ?a # [])"
    by simp
  have 1: "act_start ?a = act_end ?a"
    by simp
  have 2: "parseTime sampleHost (act_start ?a) = Num 12"
    by (simp add: parseTime_sample)
  have drv: "drawActivity sampleHost 240 270 720 50 ?drv [] =
               [SetFillStyle ''#e74c3c'', FillRect (Num 420) 360 (Num 180) 48,
                SetStrokeStyle ''#000'', SetLineWidth 1, StrokeRect (Num 420) 360 (Num 180) 48]"
    by (simp add: drawActivity_calls parseTime_sample timeX_Num binary64_sample
        barFillStyle_def rowIndex_def)
  show ?thesis
    using zero_width_bar [OF 0 1 2, of "[]" 240 270 720 50 "[]"]
    by (simp add: drv parseTime_sample timeX_Num binary64_sample barFillStyle_def rowIndex_def)
qed

section \<open>The grid\<close>

text \<open>
  C4. The grid builder takes no part of the log. It strokes exactly 5 horizontal lines
  (one per \<open>i\<close> from 0 to 4, from the left to the right end of the timeline) and 25 vertical
  ticks (one per hour from 0 to 24), so every sheet, whatever its log, has 30 stroked
  lines; and it writes exactly 13 hour labels, on the even hours: \<open>Mid\<close> at 0, \<open>Noon\<close> at
  12, the numeral below 12, the hour minus 12 above. An odd hour gets its tick and no
  label.
\<close>

theorem timeline_grid_fixed:
  "drawTimelineGrid ctx tx tw ys rh =
     ctx @ [SetStrokeStyle ''#333'', SetLineWidth 1]
         @ concat (map (\<lambda>i. [BeginPath, MoveTo tx (ys + real i * rh - 10),
                                LineTo (tx + tw) (ys + real i * rh - 10), Stroke]) [0..<5])
         @ [SetFont ''10px Arial'', SetFillStyle ''#333'']
         @ concat (map (timeMarker tx tw ys rh) [0..<25])
   \<and> count_list (horizontalLines 0 [] tx tw ys rh) Stroke = 5
   \<and> count_list (timeMarkers 0 [] tx tw ys rh) Stroke = 25
   \<and> count_list (useEffectDraw h [] dlog) Stroke = 30
   \<and> textsOf (drawTimelineGrid [] tx tw ys rh) =
        [''Mid'', ''2'', ''4'', ''6'', ''8'', ''10'', ''Noon'',
         ''2'', ''4'', ''6'', ''8'', ''10'', ''12'']
   \<and> length (textsOf (drawTimelineGrid [] tx tw ys rh)) = 13
   \<and> take 4 (timeMarker tx tw ys rh hour) =
        [BeginPath, MoveTo (hourX tx tw hour) (ys - 10),
         LineTo (hourX tx tw hour) (ys + 4 * rh - 10), Stroke]
   \<and> textsOf (timeMarker tx tw ys rh hour) = (if hour mod 2 = 0 then [hourLabel hour] else [])
   \<and> hourLabel 0 = ''Mid'' \<and> hourLabel 12 = ''Noon''
   \<and> (0 < hour \<and> hour < 12 \<longrightarrow> hourLabel hour = showNat hour)
   \<and> (12 < hour \<longrightarrow> hourLabel hour = showNat (hour - 12))"
proof -
  have "count_list (horizontalLines 0 [] tx tw ys rh) Stroke = 5"
    by (simp only: horizontalLines_unfold append_Nil count_horizontalLines)
  moreover have "count_list (timeMarkers 0 [] tx tw ys rh) Stroke = 25"
    by (simp only: timeMarkers_unfold append_Nil count_timeMarkers)
  moreover have "take 4 (timeMarker tx tw ys rh hour) =
        [BeginPath, MoveTo (hourX tx tw hour) (ys - 10),
         LineTo (hourX tx tw hour) (ys + 4 * rh - 10), Stroke]"
    by (simp add: timeMarker_def Let_def)
  moreover have "hourLabel 0 = ''Mid''" "hourLabel 12 = ''Noon''"
    by (simp_all add: hourLabel_def)
  moreover have "0 < hour \<and> hour < 12 \<longrightarrow> hourLabel hour = showNat hour"
    by (simp add: hourLabel_def)
  moreover have "12 < hour \<longrightarrow> hourLabel hour = showNat (hour - 12)"
    by (simp add: hourLabel_def)
  moreover have "length (textsOf (drawTimelineGrid [] tx tw ys rh)) = 13"
    by (simp add: textsOf_drawTimelineGrid)
  ultimately show ?thesis
    by (simp only: drawTimelineGrid_calls [symmetric] textsOf_drawTimelineGrid
        textsOf_timeMarker count_useEffectDraw simp_thms)
qed

theorem timeline_grid_fixed_witness:
  "(0::nat) < 8 \<and> (8::nat) < 12 \<and> hourLabel 8 = ''8''
   \<and> (12::nat) < 14 \<and> hourLabel 14 = ''2''
   \<and> textsOf (timeMarker 240 720 270 50 7) = []
   \<and> textsOf (timeMarker 240 720 270 50 24) = [''12'']
   \<and> count_list (useEffectDraw sampleHost [] sampleLog) Stroke = 30"
  using timeline_grid_fixed [of "[]" 240 720 270 50 sampleHost sampleLog 8]
        timeline_grid_fixed [of "[]" 240 720 270 50 sampleHost sampleLog 14]
        timeline_grid_fixed [of "[]" 240 720 270 50 sampleHost sampleLog 7]
        timeline_grid_fixed [of "[]" 240 720 270 50 sampleHost sampleLog 24]
  by (simp add: showNat.simps hourLabel_def)

section \<open>Times that do not parse\<close>

lemma bars_malformedLog:
  "drawDutyStatusTimeline sampleHost [] malformedLog 240 270 720 50 =
     [SetFillStyle ''#e74c3c'', FillRect NaN 360 NaN 48,
      SetStrokeStyle ''#000'', SetLineWidth 1, StrokeRect NaN 360 NaN 48]"
  by (simp add: drawDutyStatusTimeline_bars malformedLog_def drawActivity_calls
      parseTime_sample timeX_NaN jsSub_NaN barFillStyle_def rowIndex_def)

text \<open>
  C5, as stated, fails: for the day \<open>malformedLog\<close>, whose activity starts at \<open>noon\<close>,
  \<open>parseTime\<close> returns \<open>NaN\<close> and the effect runs to its end. The title is drawn (call 7),
  then the rest of the header, the labels and the grid, and the bar's \<open>fillRect\<close> and
  \<open>strokeRect\<close> are called with \<open>NaN\<close> for x and width.
\<close>

theorem malformed_time_drawn:
  "parseTime sampleHost ''noon'' = NaN
   \<and> useEffectDraw sampleHost [] malformedLog ! 7 = FillText ''Drivers Daily Log (24 hours)'' 40 30
   \<and> useEffectDraw sampleHost [] malformedLog =
       [ClearRect 0 0 1000 1400, SetFillStyle ''#000'', SetStrokeStyle ''#000'',
        SetLineWidth 1, SetFont ''12px Arial'']
       @ drawHeader sampleHost [] 40 1000 malformedLog
       @ drawStatusLabels [] 40 270 50
       @ drawTimelineGrid [] 240 720 270 50
       @ [SetFillStyle ''#e74c3c'', FillRect NaN 360 NaN 48,
          SetStrokeStyle ''#000'', SetLineWidth 1, StrokeRect NaN 360 NaN 48]
       @ drawRecap sampleHost [] 40 600 malformedLog"
proof -
  have "useEffectDraw sampleHost [] malformedLog ! 7
        = FillText ''Drivers Daily Log (24 hours)'' 40 30"
    by (simp add: useEffectDraw_sequence drawHeader_def)
  then show ?thesis
    by (simp add: parseTime_sample useEffectDraw_sequence bars_malformedLog)
qed

lemma NaN_bar_on_sheet:
  assumes "activities dlog = Some as" and "a \<in> set as"
    and "parseTime h (act_start a) = NaN \<or> parseTime h (act_end a) = NaN"
  shows "\<exists>pre post.
           useEffectDraw h [] dlog =
             ([ClearRect 0 0 1000 1400, SetFillStyle ''#000'', SetStrokeStyle ''#000'',
               SetLineWidth 1, SetFont ''12px Arial'']
              @ drawHeader h [] 40 1000 dlog
              @ drawStatusLabels [] 40 270 50
              @ drawTimelineGrid [] 240 720 270 50)
             @ pre
             @ [SetFillStyle (barFillStyle (act_type a)),
                FillRect (timeX 240 720 (parseTime h (act_start a)))
                         (270 + real (rowIndex (act_type a)) * 50 - 10) NaN 48,
                SetStrokeStyle ''#000'',
                SetLineWidth 1,
                StrokeRect (timeX 240 720 (parseTime h (act_start a)))
                           (270 + real (rowIndex (act_type a)) * 50 - 10) NaN 48]
             @ post"
proof -
  from assms(2) obtain as1 as2 where as: "as = as1 @ a # as2"
    by (auto simp: in_set_conv_decomp)
  have w: "jsSub (timeX 240 720 (parseTime h (act_end a)))
                 (timeX 240 720 (parseTime h (act_start a))) = NaN"
    using assms(3) by (auto simp: timeX_NaN jsSub_NaN)
  have bar: "drawActivity h 240 270 720 50 a [] =
               [SetFillStyle (barFillStyle (act_type a)),
                FillRect (timeX 240 720 (parseTime h (act_start a)))
                         (270 + real (rowIndex (act_type a)) * 50 - 10) NaN 48,
                SetStrokeStyle ''#000'',
                SetLineWidth 1,
                StrokeRect (timeX 240 720 (parseTime h (act_start a)))
                           (270 + real (rowIndex (act_type a)) * 50 - 10) NaN 48]"
    by (simp add: drawActivity_calls w)
  have "drawDutyStatusTimeline h [] dlog 240 270 720 50 =
          concat (map (\<lambda>a. drawActivity h 240 270 720 50 a []) as1)
          @ drawActivity h 240 270 720 50 a []
          @ concat (map (\<lambda>a. drawActivity h 240 270 720 50 a []) as2)"
    by (simp add: drawDutyStatusTimeline_bars assms(1) as)
  then have "useEffectDraw h [] dlog =
             ([ClearRect 0 0 1000 1400, SetFillStyle ''#000'', SetStrokeStyle ''#000'',
               SetLineWidth 1, SetFont ''12px Arial'']
              @ drawHeader h [] 40 1000 dlog
              @ drawStatusLabels [] 40 270 50
              @ drawTimelineGrid [] 240 720 270 50)
             @ concat (map (\<lambda>a. drawActivity h 240 270 720 50 a []) as1)
             @ drawActivity h 240 270 720 50 a []
             @ (concat (map (\<lambda>a. drawActivity h 240 270 720 50 a []) as2)
                @ drawRecap h [] 40 600 dlog)"
    by (simp add: useEffectDraw_sequence)
  then show ?thesis
    unfolding bar by blast
qed

text \<open>
  C5, amended. When the start or the end of an activity of the day parses to \<open>NaN\<close>,
  nothing is raised and nothing is checked before drawing: the effect draws the header,
  the row labels and the grid as for any log, and the activity's \<open>fillRect\<close> and
  \<open>strokeRect\<close> are still called, in its row, with \<open>NaN\<close> as width.
\<close>

theorem unparseable_time_drawn_as_NaN:
  assumes "activities dlog = Some as" and "a \<in> set as"
    and "parseTime h (act_start a) = NaN \<or> parseTime h (act_end a) = NaN"
  shows "\<exists>pre post.
           useEffectDraw h [] dlog =
             ([ClearRect 0 0 1000 1400, SetFillStyle ''#000'', SetStrokeStyle ''#000'',
               SetLineWidth 1, SetFont ''12px Arial'']
              @ drawHeader h [] 40 1000 dlog
              @ drawStatusLabels [] 40 270 50
              @ drawTimelineGrid [] 240 720 270 50)
             @ pre
             @ [SetFillStyle (barFillStyle (act_type a)),
                FillRect (timeX 240 720 (parseTime h (act_start a)))
                         (270 + real (rowIndex (act_type a)) * 50 - 10) NaN 48,
                SetStrokeStyle ''#000'',
                SetLineWidth 1,
                StrokeRect (timeX 240 720 (parseTime h (act_start a)))
                           (270 + real (rowIndex (act_type a)) * 50 - 10) NaN 48]
             @ post"
  using assms by (rule NaN_bar_on_sheet)

theorem unparseable_time_drawn_as_NaN_witness:
  "activities malformedLog
     = Some [\<lparr> act_type = ''driving'', act_start = ''noon'', act_end = ''13:00'' \<rparr>]
   \<and> parseTime sampleHost ''noon'' = NaN
   \<and> (\<exists>pre post.
        useEffectDraw sampleHost [] malformedLog =
          ([ClearRect 0 0 1000 1400, SetFillStyle ''#000'', SetStrokeStyle ''#000'',
            SetLineWidth 1, SetFont ''12px Arial'']
           @ drawHeader sampleHost [] 40 1000 malformedLog
           @ drawStatusLabels [] 40 270 50
           @ drawTimelineGrid [] 240 720 270 50)
          @ pre
          @ [SetFillStyle ''#e74c3c'', FillRect NaN 360 NaN 48,
             SetStrokeStyle ''#000'', SetLineWidth 1, StrokeRect NaN 360 NaN 48]
          @ post)"
proof -
  let ?a = "\<lparr> act_type = ''driving'', act_start = ''noon'', act_end = ''13:00'' \<rparr>"
  have 1: "activities malformedLog = Some [?a]"
    by (simp add: malformedLog_def)
  have 2: "?a \<in> set [?a]"
    by simp
  have 3: "parseTime sampleHost (act_start ?a) = NaN \<or> parseTime sampleHost (act_end ?a) = NaN"
    by (simp add: parseTime_sample)
  show ?thesis
    using unparseable_time_drawn_as_NaN [OF 1 2 3] 1
    by (simp add: parseTime_sample timeX_NaN barFillStyle_def rowIndex_def)
qed

section \<open>The order of drawing\<close>

text \<open>
  C7, as stated, fails: the grid is not drawn first. On the sample day the effect clears
  the canvas, sets the styles and then draws the five header texts and the four row
  labels; the grid starts only at call 17, with its stroke style, and its first path at
  call 19.
\<close>

theorem header_drawn_before_grid:
  "take 20 (useEffectDraw sampleHost [] sampleLog) =
     [ClearRect 0 0 1000 1400,
      SetFillStyle ''#000'',
      SetStrokeStyle ''#000'',
      SetLineWidth 1,
      SetFont ''12px Arial'',
      SetFillStyle ''#000'',
      SetFont ''bold 16px Arial'',
      FillText ''Drivers Daily Log (24 hours)'' 40 30,
      SetFont ''12px Arial'',
      FillText ''Date: 2024-03-01'' 800 30,
      FillText ''From: New York, NY'' 40 60,
      FillText ''To: Chicago, IL'' 40 80,
      FillText ''Total Miles: 1350.00'' 40 100,
      FillText ''1. Off Duty'' 60 285,
      FillText ''2. Sleeper Berth'' 60 335,
      FillText ''3. Driving'' 60 385,
      FillText ''4. On Duty (not driving)'' 60 435,
      SetStrokeStyle ''#333'',
      SetLineWidth 1,
      BeginPath]"
  by (simp add: useEffectDraw_sequence drawHeader_def drawStatusLabels_calls
      drawTimelineGrid_calls sampleLog_def sampleHost_def fixedDecimal_def padZeros_def
      showNat.simps Let_def upt_rec)

text \<open>
  C7, amended. On the canvas as it is, the effect first clears the whole 1000 by 1400
  surface and sets the default styles, then draws in this order: the header texts, the
  row labels, the grid, the activity bars, the recap texts. Every rectangle call lies in
  the bar segment: there is none before the end of the grid and none in the recap.
\<close>

theorem useEffectDraw_order:
  "useEffectDraw h ctx0 dlog =
     ctx0 @ [ClearRect 0 0 1000 1400, SetFillStyle ''#000'', SetStrokeStyle ''#000'',
             SetLineWidth 1, SetFont ''12px Arial'']
          @ drawHeader h [] 40 1000 dlog
          @ drawStatusLabels [] 40 270 50
          @ drawTimelineGrid [] 240 720 270 50
          @ drawDutyStatusTimeline h [] dlog 240 270 720 50
          @ drawRecap h [] 40 600 dlog
   \<and> rectsOf (drawHeader h [] 40 1000 dlog @ drawStatusLabels [] 40 270 50
              @ drawTimelineGrid [] 240 720 270 50) = []
   \<and> rectsOf (drawRecap h [] 40 600 dlog) = []
   \<and> count_list (drawDutyStatusTimeline h [] dlog 240 270 720 50) Stroke = 0"
proof -
  have "rectsOf (drawRecap h [] 40 600 dlog) = []"
    by (simp add: drawRecap_def Let_def rectsOf_def)
  then show ?thesis
    by (simp only: useEffectDraw_sequence [symmetric] rectsOf_before_bars
        count_drawDutyStatusTimeline simp_thms)
qed

section \<open>Absent activities\<close>

text \<open>
  C10. A log whose \<open>activities\<close> field is absent is drawn as a log with an empty list:
  the bar builder adds no call in either case, and the whole sheet is the same.
\<close>

theorem absent_activities_as_empty:
  "drawDutyStatusTimeline h ctx (dlog\<lparr> activities := None \<rparr>) x yStart width rowHeight = ctx
   \<and> drawDutyStatusTimeline h ctx (dlog\<lparr> activities := Some [] \<rparr>) x yStart width rowHeight = ctx
   \<and> useEffectDraw h ctx0 (dlog\<lparr> activities := None \<rparr>)
       = useEffectDraw h ctx0 (dlog\<lparr> activities := Some [] \<rparr>)
   \<and> rectsOf (useEffectDraw h [] (dlog\<lparr> activities := None \<rparr>)) = []"
proof -
  have n: "drawDutyStatusTimeline h c (dlog\<lparr> activities := None \<rparr>) x' y' w' r' = c" for c x' y' w' r'
    by (simp add: drawDutyStatusTimeline_def)
  have e: "drawDutyStatusTimeline h c (dlog\<lparr> activities := Some [] \<rparr>) x' y' w' r' = c" for c x' y' w' r'
    by (simp add: drawDutyStatusTimeline_def)
  have s: "useEffectDraw h ctx0 (dlog\<lparr> activities := None \<rparr>)
           = useEffectDraw h ctx0 (dlog\<lparr> activities := Some [] \<rparr>)"
    by (simp add: useEffectDraw_sequence n e drawHeader_def drawRecap_def)
  have r: "rectsOf (drawRecap h [] 40 600 (dlog\<lparr> activities := None \<rparr>)) = []"
    by (simp add: drawRecap_def Let_def rectsOf_def)
  have p: "rectsOf [ClearRect 0 0 1000 1400, SetFillStyle ''#000'', SetStrokeStyle ''#000'',
                    SetLineWidth 1, SetFont ''12px Arial''] = []"
    by (simp add: rectsOf_def)
  have "useEffectDraw h [] (dlog\<lparr> activities := None \<rparr>) =
          [ClearRect 0 0 1000 1400, SetFillStyle ''#000'', SetStrokeStyle ''#000'',
           SetLineWidth 1, SetFont ''12px Arial'']
          @ (drawHeader h [] 40 1000 (dlog\<lparr> activities := None \<rparr>)
             @ drawStatusLabels [] 40 270 50 @ drawTimelineGrid [] 240 720 270 50)
          @ drawRecap h [] 40 600 (dlog\<lparr> activities := None \<rparr>)"
    by (simp add: useEffectDraw_sequence n)
  then have "rectsOf (useEffectDraw h [] (dlog\<lparr> activities := None \<rparr>)) = []"
    by (simp only: rectsOf_append p r rectsOf_before_bars [unfolded rectsOf_append]
        append_Nil append_Nil2)
  with n e s show ?thesis by simp
qed

section \<open>One sheet per day\<close>

lemma LogSheets_nonempty:
  "logs \<noteq> [] \<Longrightarrow>
     LogSheets h (Some logs) =
       Some \<lparr> heading = ''ELD Daily Log Sheets'',
              logs_grid = map (\<lambda>(index, dlog). LogSheet h dlog (index + 1)) (enumerate 0 logs) \<rparr>"
  by (simp add: LogSheets_def)

lemma logs_grid_nth:
  "i < length logs \<Longrightarrow>
     map (\<lambda>(index, dlog). LogSheet h dlog (index + 1)) (enumerate 0 logs) ! i
       = LogSheet h (logs ! i) (i + 1)"
  by (simp add: nth_enumerate_eq)

lemma sheet_header_LogSheet:
  "sheet_header (LogSheet h dlog dayNumber)
     = ''Day '' @ showNat dayNumber @ '' - '' @ toLocaleDateString h (date dlog)"
  by (simp add: LogSheet_def)

text \<open>
  C8. \<open>LogSheets\<close> returns \<open>null\<close> for an absent or empty sequence, raising nothing. For a
  non-empty sequence it returns one sheet per record, in the order of the sequence; sheet
  \<open>i\<close> (counting from 0) is the \<open>LogSheet\<close> of record \<open>i\<close> with day number \<open>i + 1\<close>, and
  its heading reads \<open>Day i+1\<close> followed by the formatted date: the number comes from the
  position, not from the date.
\<close>

theorem LogSheets_one_sheet_per_log:
  "LogSheets h None = None
   \<and> LogSheets h (Some []) = None
   \<and> (logs \<noteq> [] \<longrightarrow>
        (\<exists>c. LogSheets h (Some logs) = Some c
           \<and> length (logs_grid c) = length logs
           \<and> (\<forall>i<length logs.
                 logs_grid c ! i = LogSheet h (logs ! i) (i + 1)
                 \<and> sheet_header (logs_grid c ! i)
                     = ''Day '' @ showNat (i + 1) @ '' - '' @ toLocaleDateString h (date (logs ! i)))))"
proof -
  have "LogSheets h None = None" "LogSheets h (Some []) = None"
    by (simp_all add: LogSheets_def)
  moreover have "\<exists>c. LogSheets h (Some logs) = Some c
           \<and> length (logs_grid c) = length logs
           \<and> (\<forall>i<length logs.
                 logs_grid c ! i = LogSheet h (logs ! i) (i + 1)
                 \<and> sheet_header (logs_grid c ! i)
                     = ''Day '' @ showNat (i + 1) @ '' - '' @ toLocaleDateString h (date (logs ! i)))"
    if ne: "logs \<noteq> []"
  proof -
    let ?c = "\<lparr> heading = ''ELD Daily Log Sheets'',
               logs_grid = map (\<lambda>(index, dlog). LogSheet h dlog (index + 1)) (enumerate 0 logs) \<rparr>"
    have "LogSheets h (Some logs) = Some ?c"
      using ne by (rule LogSheets_nonempty)
    moreover have "length (logs_grid ?c) = length logs"
      by simp
    moreover have "logs_grid ?c ! i = LogSheet h (logs ! i) (i + 1)
                 \<and> sheet_header (logs_grid ?c ! i)
                     = ''Day '' @ showNat (i + 1) @ '' - '' @ toLocaleDateString h (date (logs ! i))"
      if "i < length logs" for i
      using that
      by (simp only: container.select_convs logs_grid_nth sheet_header_LogSheet simp_thms)
    ultimately show ?thesis by blast
  qed
  ultimately show ?thesis by blast
qed

theorem LogSheets_one_sheet_per_log_witness:
  "threeLogs \<noteq> []
   \<and> (\<exists>c. LogSheets sampleHost (Some threeLogs) = Some c
          \<and> length (logs_grid c) = 3
          \<and> sheet_header (logs_grid c ! 0) = ''Day 1 - 2024-03-05''
          \<and> sheet_header (logs_grid c ! 1) = ''Day 2 - 2024-03-01''
          \<and> sheet_header (logs_grid c ! 2) = ''Day 3 - 2024-03-03'')"
proof -
  have ne: "threeLogs \<noteq> []"
    by (simp add: threeLogs_def)
  have len: "length threeLogs = 3"
    by (simp add: threeLogs_def)
  from LogSheets_one_sheet_per_log [of sampleHost threeLogs] ne
  obtain c where c: "LogSheets sampleHost (Some threeLogs) = Some c"
      "length (logs_grid c) = length threeLogs"
      "\<forall>i<length threeLogs. logs_grid c ! i = LogSheet sampleHost (threeLogs ! i) (i + 1)
          \<and> sheet_header (logs_grid c ! i)
              = ''Day '' @ showNat (i + 1) @ '' - ''
                @ toLocaleDateString sampleHost (date (threeLogs ! i))"
    by blast
  have "sheet_header (logs_grid c ! 0) = ''Day 1 - 2024-03-05''"
    using c(3) [rule_format, THEN conjunct2, of 0] len
    by (simp add: threeLogs_def sampleHost_def showNat.simps)
  moreover have "sheet_header (logs_grid c ! 1) = ''Day 2 - 2024-03-01''"
    using c(3) [rule_format, THEN conjunct2, of 1] len
    by (simp add: threeLogs_def sampleHost_def showNat.simps)
  moreover have "sheet_header (logs_grid c ! 2) = ''Day 3 - 2024-03-03''"
    using c(3) [rule_format, THEN conjunct2, of 2] len
    by (simp add: threeLogs_def sampleHost_def showNat.simps)
  ultimately show ?thesis
    using ne c(1) c(2) len by simp
qed

lemma canvas_LogSheet: "canvas (LogSheet h dlog n) = useEffectDraw h [] dlog"
  by (simp add: LogSheet_def)

section \<open>Raw records\<close>

lemma readActivity_rawActivityOf: "readActivity (rawActivityOf a) = Inr a"
  by (simp add: readActivity_def rawActivityOf_def)

lemma collect_readActivity:
  "collect (map (readActivity \<circ> rawActivityOf) as) = Inr as"
  by (induction as) (simp_all add: readActivity_rawActivityOf)

lemma rawOf_sel:
  "raw_recap (rawOf dlog) = Some (log_recap dlog)"
  "raw_total_miles_driving (rawOf dlog) = Some (total_miles_driving dlog)"
  "raw_date (rawOf dlog) = date dlog"
  "raw_origin (rawOf dlog) = origin dlog"
  "raw_destination (rawOf dlog) = destination dlog"
  by (simp_all add: rawOf_def)

lemma rawOf_activities:
  "(case raw_activities (rawOf dlog) of
      None \<Rightarrow> Inr None
    | Some ras \<Rightarrow>
        (case collect (map readActivity ras) of
           Inl e \<Rightarrow> Inl e
         | Inr as \<Rightarrow> Inr (Some as))) = Inr (activities dlog)"
  by (cases "activities dlog") (simp_all add: rawOf_def collect_readActivity)

lemma renderLogSheet_rawOf: "renderLogSheet h (rawOf dlog) n = Inr (LogSheet h dlog n)"
proof -
  have eq: "\<lparr> date = date dlog, origin = origin dlog, destination = destination dlog,
              total_miles_driving = total_miles_driving dlog, activities = activities dlog,
              log_recap = log_recap dlog \<rparr> = dlog"
    by simp
  show ?thesis
    by (simp add: renderLogSheet_def rawOf_sel rawOf_activities) (simp only: eq)
qed

lemma renderLogSheet_enumerate:
  "map (\<lambda>(index, raw). renderLogSheet h raw (index + 1)) (enumerate n (map rawOf logs))
     = map Inr (map (\<lambda>(index, dlog). LogSheet h dlog (index + 1)) (enumerate n logs))"
  by (induction logs arbitrary: n) (simp_all add: renderLogSheet_rawOf)

lemma renderLogSheets_rawOf:
  "logs \<noteq> [] \<Longrightarrow>
     renderLogSheets h (Some (map rawOf logs)) =
       Inr (Some \<lparr> heading = ''ELD Daily Log Sheets'',
                   logs_grid = map (\<lambda>(index, dlog). LogSheet h dlog (index + 1))
                                   (enumerate 0 logs) \<rparr>)"
proof -
  assume ne: "logs \<noteq> []"
  have "collect (map (\<lambda>(index, raw). renderLogSheet h raw (index + 1))
                     (enumerate 0 (map rawOf logs)))
        = Inr (map (\<lambda>(index, dlog). LogSheet h dlog (index + 1)) (enumerate 0 logs))"
    by (simp only: renderLogSheet_enumerate collect_all_Inr)
  with ne show ?thesis
    by (simp add: renderLogSheets_def)
qed

lemma renderLogSheets_raises:
  assumes "i < length raws" and "renderLogSheet h (raws ! i) (i + 1) = Inl TypeError"
  shows "renderLogSheets h (Some raws) = Inl TypeError"
proof -
  let ?rs = "map (\<lambda>(index, raw). renderLogSheet h raw (index + 1)) (enumerate 0 raws)"
  have "?rs ! i = renderLogSheet h (raws ! i) (i + 1)"
    using assms(1) by (simp add: nth_enumerate_eq)
  with assms have "Inl TypeError \<in> set ?rs"
    by (metis (no_types, lifting) length_enumerate length_map nth_mem)
  then obtain e where "collect ?rs = Inl e"
    using collect_Inl by blast
  moreover have "e = TypeError" by (cases e) simp
  moreover from assms(1) have "length raws \<noteq> 0" by auto
  ultimately show ?thesis
    by (simp add: renderLogSheets_def)
qed

lemma renderLogSheet_no_time:
  assumes "raw_recap raw = Some r" and "raw_total_miles_driving raw = Some m"
    and "raw_activities raw = Some ras" and "ra \<in> set ras"
    and "raw_start ra = None \<or> raw_end ra = None"
  shows "renderLogSheet h raw n = Inl TypeError"
proof -
  from assms(5) have "readActivity ra = Inl TypeError"
    by (auto simp: readActivity_def split: option.splits)
  with assms(4) have "Inl TypeError \<in> set (map readActivity ras)"
    by (metis image_eqI list.set_map)
  then obtain e where "collect (map readActivity ras) = Inl e"
    using collect_Inl by blast
  moreover have "e = TypeError" by (cases e) simp
  ultimately show ?thesis
    using assms(1,2,3) by (simp add: renderLogSheet_def)
qed

text \<open>
  C6, as stated, fails. The sample day alone renders to its sheet; in the sequence of the
  sample day followed by the same day without its recap, the \<open>TypeError\<close> of the second
  record leaves \<open>LogSheets\<close> uncaught: the result is the exception, with no sheet for the
  first record and no report for the second.
\<close>

theorem failed_day_removes_all_sheets:
  "renderLogSheets sampleHost (Some [rawOf sampleLog]) =
     Inr (Some \<lparr> heading = ''ELD Daily Log Sheets'',
                 logs_grid = [LogSheet sampleHost sampleLog 1] \<rparr>)
   \<and> renderLogSheet sampleHost noRecapLog 2 = Inl TypeError
   \<and> renderLogSheets sampleHost (Some [rawOf sampleLog, noRecapLog]) = Inl TypeError"
proof -
  have 1: "renderLogSheets sampleHost (Some [rawOf sampleLog]) =
     Inr (Some \<lparr> heading = ''ELD Daily Log Sheets'',
                 logs_grid = [LogSheet sampleHost sampleLog 1] \<rparr>)"
    using renderLogSheets_rawOf [of "[sampleLog]" sampleHost] by simp
  have 2: "renderLogSheet sampleHost noRecapLog 2 = Inl TypeError"
    by (simp add: renderLogSheet_def noRecapLog_def)
  have "renderLogSheets sampleHost (Some [rawOf sampleLog, noRecapLog]) = Inl TypeError"
    using renderLogSheets_raises [of 1 "[rawOf sampleLog, noRecapLog]" sampleHost] 2
    by (simp add: numeral_2_eq_2)
  with 1 2 show ?thesis by simp
qed

text \<open>
  C6, amended. When every record of the sequence has its recap, its total miles and the
  start and end strings of its activities, \<open>LogSheets\<close> renders one sheet per record, each
  the \<open>LogSheet\<close> of its own record at its own position; and a record with a time that
  parses to \<open>NaN\<close> is not reported: its sheet is among them, with the bar called with
  \<open>NaN\<close> as width. When a record lacks its recap, its total miles, or a start or end
  string, the \<open>TypeError\<close> it raises is caught nowhere: no sheet of the sequence is
  rendered, those of the other records included, and no record is reported as failed.
\<close>

theorem renderLogSheets_all_or_nothing:
  "(logs \<noteq> [] \<longrightarrow>
      renderLogSheets h (Some (map rawOf logs)) =
        Inr (Some \<lparr> heading = ''ELD Daily Log Sheets'',
                    logs_grid = map (\<lambda>(index, dlog). LogSheet h dlog (index + 1))
                                    (enumerate 0 logs) \<rparr>))
   \<and> (i < length logs \<longrightarrow>
        map (\<lambda>(index, dlog). LogSheet h dlog (index + 1)) (enumerate 0 logs) ! i
          = LogSheet h (logs ! i) (i + 1))
   \<and> (activities dlog = Some as \<and> a \<in> set as
        \<and> (parseTime h (act_start a) = NaN \<or> parseTime h (act_end a) = NaN) \<longrightarrow>
        (\<exists>pre post.
           canvas (LogSheet h dlog n) =
             ([ClearRect 0 0 1000 1400, SetFillStyle ''#000'', SetStrokeStyle ''#000'',
               SetLineWidth 1, SetFont ''12px Arial'']
              @ drawHeader h [] 40 1000 dlog
              @ drawStatusLabels [] 40 270 50
              @ drawTimelineGrid [] 240 720 270 50)
             @ pre
             @ [SetFillStyle (barFillStyle (act_type a)),
                FillRect (timeX 240 720 (parseTime h (act_start a)))
                         (270 + real (rowIndex (act_type a)) * 50 - 10) NaN 48,
                SetStrokeStyle ''#000'',
                SetLineWidth 1,
                StrokeRect (timeX 240 720 (parseTime h (act_start a)))
                           (270 + real (rowIndex (act_type a)) * 50 - 10) NaN 48]
             @ post))
   \<and> (raw_recap raw = None \<longrightarrow> renderLogSheet h raw n = Inl TypeError)
   \<and> (raw_total_miles_driving raw = None \<longrightarrow> renderLogSheet h raw n = Inl TypeError)
   \<and> (raw_recap raw = Some r \<and> raw_total_miles_driving raw = Some m
        \<and> raw_activities raw = Some ras \<and> ra \<in> set ras
        \<and> (raw_start ra = None \<or> raw_end ra = None) \<longrightarrow>
        renderLogSheet h raw n = Inl TypeError)
   \<and> (j < length raws \<and> renderLogSheet h (raws ! j) (j + 1) = Inl TypeError \<longrightarrow>
        renderLogSheets h (Some raws) = Inl TypeError)"
proof -
  have 1: "logs \<noteq> [] \<longrightarrow>
      renderLogSheets h (Some (map rawOf logs)) =
        Inr (Some \<lparr> heading = ''ELD Daily Log Sheets'',
                    logs_grid = map (\<lambda>(index, dlog). LogSheet h dlog (index + 1))
                                    (enumerate 0 logs) \<rparr>)"
    by (simp add: renderLogSheets_rawOf)
  have 2: "i < length logs \<longrightarrow>
        map (\<lambda>(index, dlog). LogSheet h dlog (index + 1)) (enumerate 0 logs) ! i
          = LogSheet h (logs ! i) (i + 1)"
    using logs_grid_nth [of i logs h] by blast
  have 3: "activities dlog = Some as \<and> a \<in> set as
        \<and> (parseTime h (act_start a) = NaN \<or> parseTime h (act_end a) = NaN) \<longrightarrow>
        (\<exists>pre post.
           canvas (LogSheet h dlog n) =
             ([ClearRect 0 0 1000 1400, SetFillStyle ''#000'', SetStrokeStyle ''#000'',
               SetLineWidth 1, SetFont ''12px Arial'']
              @ drawHeader h [] 40 1000 dlog
              @ drawStatusLabels [] 40 270 50
              @ drawTimelineGrid [] 240 720 270 50)
             @ pre
             @ [SetFillStyle (barFillStyle (act_type a)),
                FillRect (timeX 240 720 (parseTime h (act_start a)))
                         (270 + real (rowIndex (act_type a)) * 50 - 10) NaN 48,
                SetStrokeStyle ''#000'',
                SetLineWidth 1,
                StrokeRect (timeX 240 720 (parseTime h (act_start a)))
                           (270 + real (rowIndex (act_type a)) * 50 - 10) NaN 48]
             @ post)"
  proof (intro impI)
    assume "activities dlog = Some as \<and> a \<in> set as
        \<and> (parseTime h (act_start a) = NaN \<or> parseTime h (act_end a) = NaN)"
    then have "activities dlog = Some as" "a \<in> set as"
      "parseTime h (act_start a) = NaN \<or> parseTime h (act_end a) = NaN"
      by simp_all
    then show "\<exists>pre post.
           canvas (LogSheet h dlog n) =
             ([ClearRect 0 0 1000 1400, SetFillStyle ''#000'', SetStrokeStyle ''#000'',
               SetLineWidth 1, SetFont ''12px Arial'']
              @ drawHeader h [] 40 1000 dlog
              @ drawStatusLabels [] 40 270 50
              @ drawTimelineGrid [] 240 720 270 50)
             @ pre
             @ [SetFillStyle (barFillStyle (act_type a)),
                FillRect (timeX 240 720 (parseTime h (act_start a)))
                         (270 + real (rowIndex (act_type a)) * 50 - 10) NaN 48,
                SetStrokeStyle ''#000'',
                SetLineWidth 1,
                StrokeRect (timeX 240 720 (parseTime h (act_start a)))
                           (270 + real (rowIndex (act_type a)) * 50 - 10) NaN 48]
             @ post"
      unfolding canvas_LogSheet by (rule NaN_bar_on_sheet)
  qed
  have 4: "raw_recap raw = None \<longrightarrow> renderLogSheet h raw n = Inl TypeError"
    by (simp add: renderLogSheet_def)
  have 5: "raw_total_miles_driving raw = None \<longrightarrow> renderLogSheet h raw n = Inl TypeError"
    by (simp add: renderLogSheet_def split: option.splits)
  have 6: "raw_recap raw = Some r \<and> raw_total_miles_driving raw = Some m
        \<and> raw_activities raw = Some ras \<and> ra \<in> set ras
        \<and> (raw_start ra = None \<or> raw_end ra = None) \<longrightarrow>
        renderLogSheet h raw n = Inl TypeError"
    using renderLogSheet_no_time [of raw r m ras ra h n] by blast
  have 7: "j < length raws \<and> renderLogSheet h (raws ! j) (j + 1) = Inl TypeError \<longrightarrow>
        renderLogSheets h (Some raws) = Inl TypeError"
    using renderLogSheets_raises [of j raws h] by blast
  from 1 2 3 4 5 6 7 show ?thesis by (intro conjI)
qed

theorem renderLogSheets_all_or_nothing_witness:
  "[sampleLog, malformedLog] \<noteq> []
   \<and> renderLogSheets sampleHost (Some (map rawOf [sampleLog, malformedLog])) =
       Inr (Some \<lparr> heading = ''ELD Daily Log Sheets'',
                   logs_grid = [LogSheet sampleHost sampleLog 1,
                                LogSheet sampleHost malformedLog 2] \<rparr>)
   \<and> (1::nat) < length [sampleLog, malformedLog]
   \<and> activities malformedLog
       = Some [\<lparr> act_type = ''driving'', act_start = ''noon'', act_end = ''13:00'' \<rparr>]
   \<and> parseTime sampleHost ''noon'' = NaN
   \<and> (\<exists>pre post.
        canvas (LogSheet sampleHost malformedLog 2) =
          ([ClearRect 0 0 1000 1400, SetFillStyle ''#000'', SetStrokeStyle ''#000'',
            SetLineWidth 1, SetFont ''12px Arial'']
           @ drawHeader sampleHost [] 40 1000 malformedLog
           @ drawStatusLabels [] 40 270 50
           @ drawTimelineGrid [] 240 720 270 50)
          @ pre
          @ [SetFillStyle ''#e74c3c'', FillRect NaN 360 NaN 48,
             SetStrokeStyle ''#000'', SetLineWidth 1, StrokeRect NaN 360 NaN 48]
          @ post)
   \<and> raw_recap noRecapLog = None
   \<and> renderLogSheet sampleHost noRecapLog 2 = Inl TypeError
   \<and> raw_total_miles_driving ((rawOf sampleLog)\<lparr> raw_total_miles_driving := None \<rparr>) = None
   \<and> renderLogSheet sampleHost ((rawOf sampleLog)\<lparr> raw_total_miles_driving := None \<rparr>) 2
       = Inl TypeError
   \<and> renderLogSheet sampleHost
        ((rawOf sampleLog)\<lparr> raw_activities := Some
           [\<lparr> raw_type = ''driving'', raw_start = None, raw_end = Some ''12:00'' \<rparr>] \<rparr>) 2
       = Inl TypeError
   \<and> (1::nat) < length [rawOf sampleLog, noRecapLog]
   \<and> renderLogSheets sampleHost (Some [rawOf sampleLog, noRecapLog]) = Inl TypeError"
proof -
  let ?a = "\<lparr> act_type = ''driving'', act_start = ''noon'', act_end = ''13:00'' \<rparr>"
  let ?ra = "\<lparr> raw_type = ''driving'', raw_start = None, raw_end = Some ''12:00'' \<rparr>"
  let ?noMiles = "(rawOf sampleLog)\<lparr> raw_total_miles_driving := None \<rparr>"
  let ?noStart = "(rawOf sampleLog)\<lparr> raw_activities := Some [?ra] \<rparr>"
  note t1 = renderLogSheets_all_or_nothing
    [where logs = "[sampleLog, malformedLog]" and h = sampleHost and i = 1
       and dlog = malformedLog and as = "[?a]" and a = ?a and n = 2
       and raw = noRecapLog and r = sampleRecap and m = 1350 and ras = "[?ra]" and ra = ?ra
       and j = 1 and raws = "[rawOf sampleLog, noRecapLog]"]
  note t2 = renderLogSheets_all_or_nothing
    [where logs = "[sampleLog, malformedLog]" and h = sampleHost and i = 1
       and dlog = malformedLog and as = "[?a]" and a = ?a and n = 2
       and raw = ?noMiles and r = sampleRecap and m = 1350 and ras = "[?ra]" and ra = ?ra
       and j = 1 and raws = "[rawOf sampleLog, noRecapLog]"]
  note t3 = renderLogSheets_all_or_nothing
    [where logs = "[sampleLog, malformedLog]" and h = sampleHost and i = 1
       and dlog = malformedLog and as = "[?a]" and a = ?a and n = 2
       and raw = ?noStart and r = sampleRecap and m = 1350 and ras = "[?ra]" and ra = ?ra
       and j = 1 and raws = "[rawOf sampleLog, noRecapLog]"]
  have act: "activities malformedLog = Some [?a]"
    by (simp add: malformedLog_def)
  have nan: "parseTime sampleHost ''noon'' = NaN"
    by (simp add: parseTime_sample)
  have nr: "raw_recap noRecapLog = None"
    by (simp add: noRecapLog_def)
  have nm: "raw_total_miles_driving ?noMiles = None"
    by simp
  have ns: "raw_recap ?noStart = Some sampleRecap"
    "raw_total_miles_driving ?noStart = Some 1350"
    "raw_activities ?noStart = Some [?ra]"
    by (simp_all add: rawOf_def sampleLog_def)
  from t1 have g: "renderLogSheets sampleHost (Some (map rawOf [sampleLog, malformedLog])) =
       Inr (Some \<lparr> heading = ''ELD Daily Log Sheets'',
                   logs_grid = [LogSheet sampleHost sampleLog 1,
                                LogSheet sampleHost malformedLog 2] \<rparr>)"
    by (simp add: numeral_2_eq_2)
  from t1 act nan have c: "\<exists>pre post.
        canvas (LogSheet sampleHost malformedLog 2) =
          ([ClearRect 0 0 1000 1400, SetFillStyle ''#000'', SetStrokeStyle ''#000'',
            SetLineWidth 1, SetFont ''12px Arial'']
           @ drawHeader sampleHost [] 40 1000 malformedLog
           @ drawStatusLabels [] 40 270 50
           @ drawTimelineGrid [] 240 720 270 50)
          @ pre
          @ [SetFillStyle ''#e74c3c'', FillRect NaN 360 NaN 48,
             SetStrokeStyle ''#000'', SetLineWidth 1, StrokeRect NaN 360 NaN 48]
          @ post"
    by (simp add: timeX_NaN barFillStyle_def rowIndex_def)
  from t1 nr have e1: "renderLogSheet sampleHost noRecapLog 2 = Inl TypeError"
    by blast
  from t2 nm have e2: "renderLogSheet sampleHost ?noMiles 2 = Inl TypeError"
    by blast
  from t3 ns have e3: "renderLogSheet sampleHost ?noStart 2 = Inl TypeError"
    by simp
  from t1 e1 have e4: "renderLogSheets sampleHost (Some [rawOf sampleLog, noRecapLog])
                       = Inl TypeError"
    by (simp add: numeral_2_eq_2)
  from g act nan c nr e1 nm e2 e3 e4 show ?thesis
    by simp
qed

end
